theory Spec2Isabelle
  imports Complex_Main "HOL-Library.Monad_Syntax"
begin

section \<open>The scroll-to-dynamic controller (useScrollToDynamicController.ts)\<close>

text \<open>
  The controller is a single-threaded, callback-driven state machine. JavaScript numbers
  that carry lengths and offsets are modelled as exact reals, indices and the correction
  budget as integers (NaN and the infinities are left out). Every closure handed to a
  timer or a frame request is an element of the datatype \<open>scheduled\<close>, holding the
  operation id it captured; the host fires them in any order.
\<close>

subsection \<open>Data model\<close>

datatype axis_dir = Horizontal | Vertical

datatype scroll_behavior = Auto | Instant | Smooth

datatype op_status = Initial | Correcting | Stable

datatype cancel_reason = User | Cancelled

type_synonym handle = int

record scroll_operation =
  op_id :: nat
  targetIndex :: int
  behavior :: scroll_behavior
  callback :: bool
  correctionsRemaining :: int
  pendingCorrection :: bool
  stabilityTimeoutId :: "handle option"
  pinTimeoutId :: "handle option"
  scheduleFrameId :: "handle option"
  status :: op_status
  maintainPosition :: bool
  isPinned :: bool
  isProgrammaticScroll :: bool
  lastMeasurementTimestamp :: nat
  hasMeasuredTarget :: bool
  stableIterations :: int
  pendingAnchorDelta :: real
  anchorFrameId :: "handle option"
  initialAlignmentPerformed :: bool

text \<open>The field \<open>callback\<close> says whether \<open>start\<close> was given a completion callback.\<close>

definition DEFAULT_MAX_CORRECTIONS :: int where
  "DEFAULT_MAX_CORRECTIONS = 10"

definition VIEWPORT_TOLERANCE :: real where
  "VIEWPORT_TOLERANCE = 1"

definition DEFAULT_CORRECTION_SETTLE :: int where
  "DEFAULT_CORRECTION_SETTLE = 2"

definition ANCHOR_DELTA_EPSILON :: real where
  "ANCHOR_DELTA_EPSILON = 1 / 4"

record rect =
  rect_top :: real
  rect_left :: real
  rect_bottom :: real
  rect_right :: real

text \<open>
  The hook's parameters and what it reads from the host at the moment of a call:
  \<open>scrollViewRect\<close> is \<open>None\<close> when \<open>scrollViewRef.current\<close> is null and otherwise the
  container's bounding rectangle; \<open>elementRect i\<close> is \<open>None\<close> when \<open>measureRefObject\<close>
  holds no element for index \<open>i\<close>. The optional notification callbacks are recorded by
  whether they were supplied. \<open>pinDuration\<close> is \<open>None\<close> when it is not finite.
  \<open>hasAnimationFrame\<close> and \<open>hasTimeout\<close> are the feature tests on the default view.
  The hooks \<open>useTimeout\<close> and \<open>useAnimationFrame\<close> come from an external package: each
  instance owns one slot and setting it replaces what the slot held. \<open>timeoutHookLive\<close>
  is false when the timeout hook has no window and answers every request with \<open>-1\<close>
  without scheduling anything; the frame hooks always schedule.
\<close>

record env =
  axis :: axis_dir
  reversed :: bool
  getOffsetForIndex :: "(int \<Rightarrow> real option) option"
  maintainPositionParam :: bool
  maxCorrections :: int
  pinDuration :: "real option"
  setFlaggedIndex :: bool
  onOperationComplete :: bool
  onOperationCancel :: bool
  onPinReleased :: bool
  scrollViewRect :: "rect option"
  elementRect :: "int \<Rightarrow> rect option"
  hasAnimationFrame :: bool
  hasTimeout :: bool
  timeoutHookLive :: bool
  now :: nat

datatype scheduled =
    ProgrammaticReset nat
  | CommitAnchor nat
  | PinExpiry nat
  | RunCheck nat
  | ExecuteCorrection nat

text \<open>
  What the controller does to the outside world, in order. \<open>OperationCallback k i\<close> is
  the call \<open>operation.callback(i)\<close> of the operation stored at \<open>k\<close>, and
  \<open>OnOperationComplete k i\<close> the call \<open>onOperationComplete(i)\<close> made while that
  operation is finalized.
\<close>

datatype effect =
    OperationCallback nat int
  | OnOperationComplete nat int
  | OnOperationCancel int cancel_reason
  | OnPinReleased int
  | SetFlaggedIndex "int option"
  | ScrollTopAdd real
  | ScrollLeftAdd real
  | ScrollTo real scroll_behavior
  | ScrollToItemDynamic int scroll_behavior
  | AddScrollListener
  | RemoveScrollListener
  | ConsoleWarn

text \<open>
  The controller's state. \<open>ops\<close> is the store of operation records, addressed by the
  number \<open>start\<close> allocated for them; \<open>operationRef\<close> is the address of the active
  record. A record that was discarded stays in the store, as it stays reachable from
  the local variables of a running call. The six slots are the hook instances.
  \<open>domListener\<close> says whether the scroll listener is registered on the container.
\<close>

record controller =
  operationRef :: "nat option"
  ops :: "nat \<Rightarrow> scroll_operation"
  scrollListenerRef :: bool
  operationIdRef :: nat
  stabilityTimer :: "scheduled option"
  pinTimer :: "scheduled option"
  anchorTimer :: "scheduled option"
  programmaticFrame :: "scheduled option"
  correctionFrame :: "scheduled option"
  anchorFrame :: "scheduled option"
  nextHandle :: handle
  scrollTop :: real
  scrollLeft :: real
  domListener :: bool
  effects :: "effect list"

definition modify :: "nat \<Rightarrow> (scroll_operation \<Rightarrow> scroll_operation) \<Rightarrow> controller \<Rightarrow> controller" where
  "modify r f s = s\<lparr>ops := (ops s)(r := f (ops s r))\<rparr>"

definition emit :: "effect \<Rightarrow> controller \<Rightarrow> controller" where
  "emit e s = s\<lparr>effects := effects s @ [e]\<rparr>"

subsection \<open>Cancelling handles\<close>

definition clearStabilityTimeout :: "nat \<Rightarrow> controller \<Rightarrow> controller" where
  "clearStabilityTimeout r s =
     (if stabilityTimeoutId (ops s r) = None then s
      else modify r (\<lambda>operation. operation\<lparr>stabilityTimeoutId := None\<rparr>)
             (s\<lparr>stabilityTimer := None\<rparr>))"

definition clearPinTimeout :: "nat \<Rightarrow> controller \<Rightarrow> controller" where
  "clearPinTimeout r s =
     (if pinTimeoutId (ops s r) = None then s
      else modify r (\<lambda>operation. operation\<lparr>pinTimeoutId := None\<rparr>)
             (s\<lparr>pinTimer := None\<rparr>))"

definition cancelScheduledFrame :: "nat \<Rightarrow> controller \<Rightarrow> controller" where
  "cancelScheduledFrame r s =
     (if scheduleFrameId (ops s r) = None then s
      else modify r (\<lambda>operation. operation\<lparr>scheduleFrameId := None\<rparr>)
             (s\<lparr>correctionFrame := None\<rparr>))"

definition cancelAnchorFrame :: "nat \<Rightarrow> controller \<Rightarrow> controller" where
  "cancelAnchorFrame r s =
     (if anchorFrameId (ops s r) = None then s
      else modify r (\<lambda>operation. operation\<lparr>anchorFrameId := None, pendingAnchorDelta := 0\<rparr>)
             (s\<lparr>anchorFrame := None, anchorTimer := None\<rparr>))"

definition detachScrollListener :: "env \<Rightarrow> controller \<Rightarrow> controller" where
  "detachScrollListener e s =
     (let s1 = (if scrollListenerRef s \<and> scrollViewRect e \<noteq> None
                then emit RemoveScrollListener (s\<lparr>domListener := False\<rparr>) else s)
      in s1\<lparr>scrollListenerRef := False\<rparr>)"

definition callSetFlaggedIndex :: "env \<Rightarrow> int option \<Rightarrow> controller \<Rightarrow> controller" where
  "callSetFlaggedIndex e i s = (if setFlaggedIndex e then emit (SetFlaggedIndex i) s else s)"

definition callOperationCallback :: "nat \<Rightarrow> controller \<Rightarrow> controller" where
  "callOperationCallback r s =
     (if callback (ops s r) then emit (OperationCallback r (targetIndex (ops s r))) s else s)"

definition callOnOperationComplete :: "env \<Rightarrow> nat \<Rightarrow> controller \<Rightarrow> controller" where
  "callOnOperationComplete e r s =
     (if onOperationComplete e then emit (OnOperationComplete r (targetIndex (ops s r))) s else s)"

definition callOnPinReleased :: "env \<Rightarrow> int \<Rightarrow> controller \<Rightarrow> controller" where
  "callOnPinReleased e i s = (if onPinReleased e then emit (OnPinReleased i) s else s)"

subsection \<open>Tearing an operation down\<close>

definition clearOperation :: "env \<Rightarrow> cancel_reason option \<Rightarrow> controller \<Rightarrow> controller" where
  "clearOperation e reason s =
     (case operationRef s of
        None \<Rightarrow> s
      | Some active \<Rightarrow>
          let s1 = clearStabilityTimeout active s;
              s2 = clearPinTimeout active s1;
              s3 = cancelScheduledFrame active s2;
              s4 = cancelAnchorFrame active s3;
              s5 = (if isPinned (ops s4 active)
                    then modify active (\<lambda>operation. operation\<lparr>isPinned := False\<rparr>) s4 else s4);
              s6 = detachScrollListener e s5;
              s7 = s6\<lparr>operationRef := None\<rparr>;
              s8 = callSetFlaggedIndex e None s7
          in (case reason of
                Some why \<Rightarrow>
                  if onOperationCancel e
                  then emit (OnOperationCancel (targetIndex (ops s8 active)) why) s8 else s8
              | None \<Rightarrow> s8))"

definition scrollListener :: "env \<Rightarrow> controller \<Rightarrow> controller" where
  "scrollListener e s =
     (case operationRef s of
        None \<Rightarrow> s
      | Some active \<Rightarrow>
          if isProgrammaticScroll (ops s active) then s
          else clearOperation e (Some User) s)"

definition ensureScrollListener :: "env \<Rightarrow> controller \<Rightarrow> controller" where
  "ensureScrollListener e s =
     (if scrollListenerRef s \<or> scrollViewRect e = None then s
      else emit AddScrollListener (s\<lparr>domListener := True, scrollListenerRef := True\<rparr>))"

subsection \<open>Alignment evaluation\<close>

record alignment =
  elementExists :: bool
  aligned :: bool
  startDelta :: real
  endOverflow :: real

definition evaluateTargetAlignment :: "env \<Rightarrow> int \<Rightarrow> alignment" where
  "evaluateTargetAlignment e index =
     (case (scrollViewRect e, elementRect e index) of
        (Some containerRect, Some elemRect) \<Rightarrow>
          let elementStart = (if axis e = Vertical then rect_top elemRect else rect_left elemRect);
              containerStart =
                (if axis e = Vertical then rect_top containerRect else rect_left containerRect);
              elementEnd = (if axis e = Vertical then rect_bottom elemRect else rect_right elemRect);
              containerEnd =
                (if axis e = Vertical then rect_bottom containerRect else rect_right containerRect);
              sd = elementStart - containerStart;
              eo = max 0 (elementEnd - containerEnd)
          in \<lparr>elementExists = True,
              aligned = (\<bar>sd\<bar> \<le> VIEWPORT_TOLERANCE \<and> eo \<le> VIEWPORT_TOLERANCE),
              startDelta = sd, endOverflow = eo\<rparr>
      | (_, element) \<Rightarrow>
          \<lparr>elementExists = (element \<noteq> None), aligned = False, startDelta = 0, endOverflow = 0\<rparr>)"

subsection \<open>Scroll commands\<close>

definition scheduleProgrammaticScrollReset :: "nat \<Rightarrow> controller \<Rightarrow> controller" where
  "scheduleProgrammaticScrollReset r s =
     s\<lparr>programmaticFrame := Some (ProgrammaticReset (op_id (ops s r))),
       nextHandle := nextHandle s + 1\<rparr>"

text \<open>The body of the frame callback that \<open>scheduleProgrammaticScrollReset\<close> requests.\<close>

definition programmaticScrollReset :: "nat \<Rightarrow> controller \<Rightarrow> controller" where
  "programmaticScrollReset k s =
     (case operationRef s of
        None \<Rightarrow> s
      | Some active \<Rightarrow>
          if op_id (ops s active) \<noteq> k then s
          else modify active (\<lambda>operation. operation\<lparr>isProgrammaticScroll := False\<rparr>) s)"

definition applyScrollByDelta :: "env \<Rightarrow> nat \<Rightarrow> real \<Rightarrow> controller \<Rightarrow> controller" where
  "applyScrollByDelta e r delta s =
     (if scrollViewRect e = None \<or> delta = 0 then s
      else
        let adjustedDelta = (if reversed e then - delta else delta);
            s1 = modify r (\<lambda>operation. operation\<lparr>isProgrammaticScroll := True\<rparr>) s;
            s2 = (if axis e = Vertical
                  then emit (ScrollTopAdd adjustedDelta) (s1\<lparr>scrollTop := scrollTop s1 + adjustedDelta\<rparr>)
                  else emit (ScrollLeftAdd adjustedDelta)
                         (s1\<lparr>scrollLeft := scrollLeft s1 + adjustedDelta\<rparr>))
        in scheduleProgrammaticScrollReset r s2)"

text \<open>
  Modelled from the spec: \<open>scrollToItemDynamic\<close> (module Utilities) is an absolute
  positioning primitive whose code is not part of the sources at hand. The model
  records the request and leaves its effect on the position to the host. A request
  \<open>scrollTo({top: offset})\<close> sets \<open>scrollTop\<close> to the offset it asks for.
\<close>

definition performScroll :: "env \<Rightarrow> nat \<Rightarrow> scroll_behavior \<Rightarrow> controller \<Rightarrow> controller" where
  "performScroll e r bhv s =
     (let fallback = emit (ScrollToItemDynamic (targetIndex (ops s r)) bhv) s
      in if \<not> reversed e \<and> axis e = Vertical then
           (case getOffsetForIndex e of
              None \<Rightarrow> fallback
            | Some getOffset \<Rightarrow>
                (case getOffset (targetIndex (ops s r)) of
                   None \<Rightarrow> fallback
                 | Some offset \<Rightarrow>
                     if scrollViewRect e \<noteq> None then
                       let s1 = modify r (\<lambda>operation. operation\<lparr>isProgrammaticScroll := True\<rparr>) s;
                           s2 = emit (ScrollTo offset bhv) (s1\<lparr>scrollTop := offset\<rparr>)
                       in scheduleProgrammaticScrollReset r s2
                     else fallback))
         else fallback)"

subsection \<open>Pinning and finalization\<close>

definition releasePin :: "env \<Rightarrow> nat \<Rightarrow> controller \<Rightarrow> controller" where
  "releasePin e r s =
     (if \<not> isPinned (ops s r) then s
      else
        let target = targetIndex (ops s r);
            s1 = modify r (\<lambda>operation. operation\<lparr>isPinned := False\<rparr>) s;
            s2 = clearPinTimeout r s1;
            s3 = detachScrollListener e s2;
            s4 = callSetFlaggedIndex e None s3;
            s5 = s4\<lparr>operationRef := None\<rparr>
        in callOnPinReleased e target s5)"

text \<open>The body of the pin-expiry timer that \<open>startPin\<close> arms.\<close>

definition pinExpired :: "env \<Rightarrow> nat \<Rightarrow> controller \<Rightarrow> controller" where
  "pinExpired e k s =
     (case operationRef s of
        None \<Rightarrow> s
      | Some active \<Rightarrow>
          if op_id (ops s active) \<noteq> k then s else releasePin e active s)"

definition startPin :: "env \<Rightarrow> nat \<Rightarrow> controller \<Rightarrow> controller" where
  "startPin e r s =
     (if \<not> maintainPositionParam e \<or> isPinned (ops s r) then s
      else
        let s1 = modify r (\<lambda>operation. operation\<lparr>isPinned := True\<rparr>) s;
            s2 = ensureScrollListener e s1;
            s3 = clearPinTimeout r s2
        in if pinDuration e \<noteq> None then
             (if timeoutHookLive e then
                modify r (\<lambda>operation. operation\<lparr>pinTimeoutId := Some (nextHandle s3)\<rparr>)
                  (s3\<lparr>pinTimer := Some (PinExpiry (op_id (ops s3 r))),
                      nextHandle := nextHandle s3 + 1\<rparr>)
              else s3)
           else s3)"

definition finalizeOperation :: "env \<Rightarrow> nat \<Rightarrow> controller \<Rightarrow> controller" where
  "finalizeOperation e r s =
     (if status (ops s r) = Stable then s
      else
        let s1 = modify r (\<lambda>operation. operation\<lparr>status := Stable\<rparr>) s;
            s2 = clearStabilityTimeout r s1;
            s3 = cancelScheduledFrame r s2;
            s4 = callOperationCallback r s3;
            s5 = callOnOperationComplete e r s4;
            s6 = callSetFlaggedIndex e None s5
        in if maintainPositionParam e then startPin e r s6
           else
             let s7 = s6\<lparr>operationRef := None\<rparr>;
                 s8 = detachScrollListener e s7
             in callOnPinReleased e (targetIndex (ops s8 r)) s8)"

subsection \<open>The stability monitor and the correction scheduler\<close>

text \<open>
  The source ties the two schedulers together through two references,
  \<open>scheduleCorrectionRef\<close> and \<open>scheduleStabilityCheckRef\<close>, whose implementations
  call the wrappers \<open>scheduleCorrection\<close> and \<open>scheduleStabilityCheck\<close>. The model does
  the same: the implementations take the two wrappers as arguments. \<open>runCheck\<close> and
  \<open>executeCorrection\<close> are the bodies of the closures that the implementations
  create; their argument \<open>k\<close> is the id of the operation the closure captured.
  Where the host has no frame or timer the calls are synchronous, and with a timeout
  hook that answers \<open>-1\<close> the chain need not end: a result \<open>None\<close> means that the
  call did not return within the fuel given to the wrappers.
\<close>

type_synonym scheduler = "env \<Rightarrow> nat \<Rightarrow> controller \<Rightarrow> controller option"

definition runCheck :: "scheduler \<Rightarrow> scheduler \<Rightarrow> env \<Rightarrow> nat \<Rightarrow> controller \<Rightarrow> controller option" where
  "runCheck scheduleCorrection scheduleStabilityCheck e k s =
     (case operationRef s of
        None \<Rightarrow> Some s
      | Some active \<Rightarrow>
          if op_id (ops s active) \<noteq> k then Some s
          else
            let s1 = modify active (\<lambda>operation. operation\<lparr>stabilityTimeoutId := None\<rparr>) s;
                al = evaluateTargetAlignment e (targetIndex (ops s1 active));
                canReschedule = hasTimeout e
            in if \<not> elementExists al \<or> \<not> hasMeasuredTarget (ops s1 active) then
                 (case (if 0 < correctionsRemaining (ops s1 active)
                        then scheduleCorrection e active s1 else Some s1) of
                    None \<Rightarrow> None
                  | Some s2 \<Rightarrow>
                      if canReschedule then scheduleStabilityCheck e active s2 else Some s2)
               else if \<not> aligned al then
                 (let applied1 = (VIEWPORT_TOLERANCE < \<bar>startDelta al\<bar>
                                   \<or> VIEWPORT_TOLERANCE < endOverflow al);
                      s2 = (if VIEWPORT_TOLERANCE < \<bar>startDelta al\<bar>
                            then applyScrollByDelta e active (startDelta al) s1
                            else if VIEWPORT_TOLERANCE < endOverflow al
                            then applyScrollByDelta e active (endOverflow al) s1
                            else s1);
                      applied2 = (applied1 \<or> 0 < correctionsRemaining (ops s2 active));
                      s3 = (if \<not> applied1 \<and> 0 < correctionsRemaining (ops s2 active) then
                              modify active
                                (\<lambda>operation. operation\<lparr>correctionsRemaining :=
                                               correctionsRemaining operation - 1\<rparr>)
                                (performScroll e active Instant s2)
                            else if applied1 \<and> 0 < correctionsRemaining (ops s2 active) then
                              modify active
                                (\<lambda>operation. operation\<lparr>correctionsRemaining :=
                                               correctionsRemaining operation - 1\<rparr>) s2
                            else s2)
                  in if applied2 then
                       (let s4 = modify active
                                   (\<lambda>operation. operation\<lparr>stableIterations :=
                                                  DEFAULT_CORRECTION_SETTLE\<rparr>) s3
                        in if canReschedule then scheduleStabilityCheck e active s4
                           else Some s4)
                     else if correctionsRemaining (ops s3 active) \<le> 0 then
                       Some (finalizeOperation e active (emit ConsoleWarn s3))
                     else if canReschedule then scheduleStabilityCheck e active s3
                     else Some s3)
               else if pendingCorrection (ops s1 active) then
                 (if canReschedule then scheduleStabilityCheck e active s1 else Some s1)
               else if 0 < stableIterations (ops s1 active) then
                 (let s2 = modify active
                             (\<lambda>operation. operation\<lparr>stableIterations :=
                                            stableIterations operation - 1\<rparr>) s1
                  in if canReschedule then scheduleStabilityCheck e active s2 else Some s2)
               else Some (finalizeOperation e active s1))"

definition scheduleStabilityCheckRef :: "scheduler \<Rightarrow> scheduler \<Rightarrow> scheduler" where
  "scheduleStabilityCheckRef scheduleCorrection scheduleStabilityCheck e r s =
     (let s1 = clearStabilityTimeout r s;
          canReschedule = hasTimeout e;
          k = op_id (ops s1 r)
      in if canReschedule then
           (if timeoutHookLive e then
              Some (modify r (\<lambda>operation. operation\<lparr>stabilityTimeoutId := Some (nextHandle s1)\<rparr>)
                      (s1\<lparr>stabilityTimer := Some (RunCheck k), nextHandle := nextHandle s1 + 1\<rparr>))
            else runCheck scheduleCorrection scheduleStabilityCheck e k s1)
         else runCheck scheduleCorrection scheduleStabilityCheck e k
                (modify r (\<lambda>operation. operation\<lparr>stabilityTimeoutId := None\<rparr>) s1))"

definition executeCorrection :: "scheduler \<Rightarrow> scheduler \<Rightarrow> env \<Rightarrow> nat \<Rightarrow> controller \<Rightarrow> controller option" where
  "executeCorrection scheduleCorrection scheduleStabilityCheck e k s =
     (case operationRef s of
        None \<Rightarrow> Some s
      | Some active \<Rightarrow>
          if op_id (ops s active) \<noteq> k then Some s
          else
            let al = evaluateTargetAlignment e (targetIndex (ops s active));
                applied1 = (elementExists al
                            \<and> (VIEWPORT_TOLERANCE < \<bar>startDelta al\<bar>
                               \<or> VIEWPORT_TOLERANCE < endOverflow al));
                s1 = (if elementExists al then
                        (if VIEWPORT_TOLERANCE < \<bar>startDelta al\<bar>
                         then applyScrollByDelta e active (startDelta al) s
                         else if VIEWPORT_TOLERANCE < endOverflow al
                         then applyScrollByDelta e active (endOverflow al) s
                         else s)
                      else s);
                s2 = (if \<not> applied1 then performScroll e active Instant s1 else s1);
                s3 = modify active
                       (\<lambda>operation. operation\<lparr>correctionsRemaining :=
                                      correctionsRemaining operation - 1\<rparr>) s2;
                s4 = modify active
                       (\<lambda>operation. operation\<lparr>pendingCorrection := False,
                                               scheduleFrameId := None\<rparr>) s3
            in if elementExists al \<and> aligned al then Some (finalizeOperation e active s4)
               else if 0 < correctionsRemaining (ops s4 active)
               then scheduleCorrection e active s4
               else scheduleStabilityCheck e active s4)"

definition scheduleCorrectionRef :: "scheduler \<Rightarrow> scheduler \<Rightarrow> scheduler" where
  "scheduleCorrectionRef scheduleCorrection scheduleStabilityCheck e r s =
     (if correctionsRemaining (ops s r) \<le> 0 \<or> pendingCorrection (ops s r) then Some s
      else
        let s1 = modify r (\<lambda>operation. operation\<lparr>pendingCorrection := True\<rparr>) s;
            k = op_id (ops s1 r)
        in if hasAnimationFrame e then
             Some (modify r (\<lambda>operation. operation\<lparr>scheduleFrameId := Some (nextHandle s1)\<rparr>)
                     (s1\<lparr>correctionFrame := Some (ExecuteCorrection k),
                         nextHandle := nextHandle s1 + 1\<rparr>))
           else executeCorrection scheduleCorrection scheduleStabilityCheck e k
                  (modify r (\<lambda>operation. operation\<lparr>scheduleFrameId := None\<rparr>) s1))"

text \<open>
  The two wrappers at a given fuel: a call through a reference uses one unit, and with
  none left the call does not return.
\<close>

primrec schedulers :: "nat \<Rightarrow> scheduler \<times> scheduler" where
  "schedulers 0 = ((\<lambda>e r s. None), (\<lambda>e r s. None))"
| "schedulers (Suc n) =
     (scheduleCorrectionRef (fst (schedulers n)) (snd (schedulers n)),
      scheduleStabilityCheckRef (fst (schedulers n)) (snd (schedulers n)))"

definition scheduleCorrection :: "nat \<Rightarrow> scheduler" where
  "scheduleCorrection n = fst (schedulers n)"

definition scheduleStabilityCheck :: "nat \<Rightarrow> scheduler" where
  "scheduleStabilityCheck n = snd (schedulers n)"

subsection \<open>The anchor compensator\<close>

definition scheduleAnchorAdjustment :: "nat \<Rightarrow> env \<Rightarrow> nat \<Rightarrow> real \<Rightarrow> controller \<Rightarrow> controller option" where
  "scheduleAnchorAdjustment n e r delta s =
     (let s1 = modify r (\<lambda>operation. operation\<lparr>pendingAnchorDelta :=
                                          pendingAnchorDelta operation + delta\<rparr>) s
      in if \<bar>pendingAnchorDelta (ops s1 r)\<bar> < ANCHOR_DELTA_EPSILON
            \<and> anchorFrameId (ops s1 r) = None then Some s1
         else if anchorFrameId (ops s1 r) \<noteq> None then Some s1
         else
           let k = op_id (ops s1 r);
               canUseAnimationFrame = hasAnimationFrame e;
               canUseTimeout = hasTimeout e
           in if canUseAnimationFrame then
                Some (modify r (\<lambda>operation. operation\<lparr>anchorFrameId := Some (nextHandle s1)\<rparr>)
                        (s1\<lparr>anchorFrame := Some (CommitAnchor k),
                            nextHandle := nextHandle s1 + 1\<rparr>))
              else if canUseTimeout then
                (if timeoutHookLive e then
                   Some (modify r (\<lambda>operation. operation\<lparr>anchorFrameId := Some (nextHandle s1)\<rparr>)
                           (s1\<lparr>anchorTimer := Some (CommitAnchor k),
                               nextHandle := nextHandle s1 + 1\<rparr>))
                 else Some (modify r (\<lambda>operation. operation\<lparr>anchorFrameId := Some (- 1)\<rparr>) s1))
              else
                let s2 = (if hasMeasuredTarget (ops s1 r)
                             \<and> ANCHOR_DELTA_EPSILON \<le> \<bar>pendingAnchorDelta (ops s1 r)\<bar> then
                            let amount = pendingAnchorDelta (ops s1 r);
                                s1a = modify r (\<lambda>operation. operation\<lparr>pendingAnchorDelta := 0\<rparr>) s1;
                                s1b = applyScrollByDelta e r amount s1a
                            in modify r (\<lambda>operation. operation\<lparr>stableIterations :=
                                                        DEFAULT_CORRECTION_SETTLE\<rparr>) s1b
                          else s1)
                in scheduleStabilityCheck n e r s2)"

text \<open>The body of the coalescing callback that \<open>scheduleAnchorAdjustment\<close> schedules.\<close>

definition commitAnchor :: "nat \<Rightarrow> env \<Rightarrow> nat \<Rightarrow> controller \<Rightarrow> controller option" where
  "commitAnchor n e k s =
     (case operationRef s of
        None \<Rightarrow> Some s
      | Some active \<Rightarrow>
          if op_id (ops s active) \<noteq> k then Some s
          else if \<not> hasMeasuredTarget (ops s active) then
            scheduleAnchorAdjustment n e active 0
              (modify active (\<lambda>operation. operation\<lparr>anchorFrameId := None\<rparr>) s)
          else
            let amount = pendingAnchorDelta (ops s active);
                s1 = modify active
                       (\<lambda>operation. operation\<lparr>pendingAnchorDelta := 0, anchorFrameId := None\<rparr>) s;
                s2 = (if ANCHOR_DELTA_EPSILON \<le> \<bar>amount\<bar> then
                        modify active
                          (\<lambda>operation. operation\<lparr>stableIterations := DEFAULT_CORRECTION_SETTLE\<rparr>)
                          (applyScrollByDelta e active amount s1)
                      else s1)
            in scheduleStabilityCheck n e active s2)"

subsection \<open>Entry points\<close>

definition handleItemMeasured :: "nat \<Rightarrow> env \<Rightarrow> int \<Rightarrow> real \<Rightarrow> real \<Rightarrow> controller \<Rightarrow> controller option" where
  "handleItemMeasured n e index size' delta s =
     (case operationRef s of
        None \<Rightarrow> Some s
      | Some active \<Rightarrow>
          if status (ops s active) = Stable then
            Some (if maintainPosition (ops s active) \<and> index < targetIndex (ops s active)
                     \<and> delta \<noteq> 0
                  then applyScrollByDelta e active delta s else s)
          else if targetIndex (ops s active) < index then Some s
          else
            let s1 = modify active (\<lambda>operation. operation\<lparr>lastMeasurementTimestamp := now e\<rparr>) s
            in if index < targetIndex (ops s1 active) \<and> delta \<noteq> 0 then
                 (if maintainPosition (ops s1 active) then
                    do {
                      s2 \<leftarrow> scheduleAnchorAdjustment n e active delta s1;
                      s3 \<leftarrow> (if \<not> hasMeasuredTarget (ops s2 active)
                                \<and> 0 < correctionsRemaining (ops s2 active)
                             then scheduleCorrection n e active s2 else Some s2);
                      scheduleStabilityCheck n e active
                        (modify active
                           (\<lambda>operation. operation\<lparr>stableIterations := DEFAULT_CORRECTION_SETTLE\<rparr>)
                           s3)
                    }
                  else
                    do {
                      s2 \<leftarrow> (if 0 < correctionsRemaining (ops s1 active)
                             then scheduleCorrection n e active s1 else Some s1);
                      scheduleStabilityCheck n e active
                        (modify active
                           (\<lambda>operation. operation\<lparr>stableIterations := DEFAULT_CORRECTION_SETTLE\<rparr>)
                           s2)
                    })
               else if index = targetIndex (ops s1 active) then
                 (let s2 = modify active (\<lambda>operation. operation\<lparr>hasMeasuredTarget := True\<rparr>) s1;
                      s3 = (if \<not> initialAlignmentPerformed (ops s2 active) then
                              modify active
                                (\<lambda>operation. operation\<lparr>initialAlignmentPerformed := True\<rparr>)
                                (performScroll e active Instant s2)
                            else s2)
                  in do {
                       s4 \<leftarrow> (if maintainPosition (ops s3 active)
                              then scheduleAnchorAdjustment n e active 0 s3
                              else Some s3);
                       s5 \<leftarrow> (if VIEWPORT_TOLERANCE \<le> \<bar>delta\<bar>
                                 \<and> 0 < correctionsRemaining (ops s4 active) then
                                do {
                                  s4a \<leftarrow> scheduleCorrection n e active s4;
                                  Some (modify active
                                          (\<lambda>operation. operation\<lparr>stableIterations :=
                                                         DEFAULT_CORRECTION_SETTLE\<rparr>) s4a)
                                }
                              else Some s4);
                       scheduleStabilityCheck n e active s5
                     })
               else scheduleStabilityCheck n e active s1)"

definition handleRendered :: "nat \<Rightarrow> env \<Rightarrow> int \<Rightarrow> controller \<Rightarrow> (bool \<times> controller) option" where
  "handleRendered n e index s =
     (case operationRef s of
        None \<Rightarrow> Some (False, s)
      | Some active \<Rightarrow>
          if index \<noteq> targetIndex (ops s active) then Some (False, s)
          else if status (ops s active) = Stable then Some (True, s)
          else
            do {
              s1 \<leftarrow> scheduleCorrection n e active s;
              s2 \<leftarrow> scheduleStabilityCheck n e active s1;
              Some (True, s2)
            })"

definition start :: "nat \<Rightarrow> env \<Rightarrow> int \<Rightarrow> scroll_behavior \<Rightarrow> bool \<Rightarrow> controller \<Rightarrow> controller option" where
  "start n e index bhv cb s =
     (let s1 = (case operationRef s of Some old \<Rightarrow> cancelScheduledFrame old s | None \<Rightarrow> s);
          s2 = clearOperation e None s1;
          operationId = operationIdRef s2 + 1;
          s3 = s2\<lparr>operationIdRef := operationId\<rparr>;
          operation =
            \<lparr>op_id = operationId, targetIndex = index, behavior = bhv, callback = cb,
             correctionsRemaining = maxCorrections e, pendingCorrection = False,
             stabilityTimeoutId = None, pinTimeoutId = None, scheduleFrameId = None,
             status = Initial, maintainPosition = maintainPositionParam e, isPinned = False,
             isProgrammaticScroll = False, lastMeasurementTimestamp = now e,
             hasMeasuredTarget = False, stableIterations = DEFAULT_CORRECTION_SETTLE,
             pendingAnchorDelta = 0, anchorFrameId = None, initialAlignmentPerformed = False\<rparr>;
          s4 = s3\<lparr>ops := (ops s3)(operationId := operation), operationRef := Some operationId\<rparr>;
          s5 = callSetFlaggedIndex e (Some index) s4;
          s6 = ensureScrollListener e s5;
          s7 = performScroll e operationId bhv s6
      in do {
           s8 \<leftarrow> scheduleCorrection n e operationId s7;
           scheduleStabilityCheck n e operationId s8
         })"

definition cancel :: "env \<Rightarrow> controller \<Rightarrow> controller" where
  "cancel e s = clearOperation e (Some Cancelled) s"

definition isActive :: "controller \<Rightarrow> bool" where
  "isActive s = (operationRef s \<noteq> None)"

text \<open>The cleanup of the hook's effect, run when the component unmounts.\<close>

definition unmount :: "env \<Rightarrow> controller \<Rightarrow> controller" where
  "unmount e s = clearOperation e None s"

subsection \<open>Events\<close>

text \<open>
  Everything the host can do to the controller: call an entry point, deliver a scroll
  event to the registered listener, or fire what one of the six slots holds. Firing
  empties the slot and runs the closure.
\<close>

datatype slot =
  StabilityTimer | PinTimer | AnchorTimer | ProgrammaticFrame | CorrectionFrame | AnchorFrame

datatype event =
    Start int scroll_behavior bool
  | HandleItemMeasured int real real
  | HandleRendered int
  | Cancel
  | Unmount
  | ScrollEvent
  | Fire slot

definition runScheduled :: "nat \<Rightarrow> env \<Rightarrow> scheduled \<Rightarrow> controller \<Rightarrow> controller option" where
  "runScheduled n e c s =
     (case c of
        ProgrammaticReset k \<Rightarrow> Some (programmaticScrollReset k s)
      | CommitAnchor k \<Rightarrow> commitAnchor n e k s
      | PinExpiry k \<Rightarrow> Some (pinExpired e k s)
      | RunCheck k \<Rightarrow> runCheck (scheduleCorrection n) (scheduleStabilityCheck n) e k s
      | ExecuteCorrection k \<Rightarrow>
          executeCorrection (scheduleCorrection n) (scheduleStabilityCheck n) e k s)"

definition slotContent :: "slot \<Rightarrow> controller \<Rightarrow> scheduled option" where
  "slotContent sl s =
     (case sl of
        StabilityTimer \<Rightarrow> stabilityTimer s
      | PinTimer \<Rightarrow> pinTimer s
      | AnchorTimer \<Rightarrow> anchorTimer s
      | ProgrammaticFrame \<Rightarrow> programmaticFrame s
      | CorrectionFrame \<Rightarrow> correctionFrame s
      | AnchorFrame \<Rightarrow> anchorFrame s)"

definition emptySlot :: "slot \<Rightarrow> controller \<Rightarrow> controller" where
  "emptySlot sl s =
     (case sl of
        StabilityTimer \<Rightarrow> s\<lparr>stabilityTimer := None\<rparr>
      | PinTimer \<Rightarrow> s\<lparr>pinTimer := None\<rparr>
      | AnchorTimer \<Rightarrow> s\<lparr>anchorTimer := None\<rparr>
      | ProgrammaticFrame \<Rightarrow> s\<lparr>programmaticFrame := None\<rparr>
      | CorrectionFrame \<Rightarrow> s\<lparr>correctionFrame := None\<rparr>
      | AnchorFrame \<Rightarrow> s\<lparr>anchorFrame := None\<rparr>)"

definition step :: "nat \<Rightarrow> env \<Rightarrow> event \<Rightarrow> controller \<Rightarrow> controller option" where
  "step n e ev s =
     (case ev of
        Start index bhv cb \<Rightarrow> start n e index bhv cb s
      | HandleItemMeasured index size' delta \<Rightarrow> handleItemMeasured n e index size' delta s
      | HandleRendered index \<Rightarrow> map_option snd (handleRendered n e index s)
      | Cancel \<Rightarrow> Some (cancel e s)
      | Unmount \<Rightarrow> Some (unmount e s)
      | ScrollEvent \<Rightarrow> Some (if domListener s then scrollListener e s else s)
      | Fire sl \<Rightarrow>
          (case slotContent sl s of
             None \<Rightarrow> Some s
           | Some c \<Rightarrow> runScheduled n e c (emptySlot sl s)))"

text \<open>A run: the events in order, each with the host's state at that moment.\<close>

fun run :: "nat \<Rightarrow> (env \<times> event) list \<Rightarrow> controller \<Rightarrow> controller option" where
  "run n [] s = Some s"
| "run n ((e, ev) # rest) s =
     (case step n e ev s of None \<Rightarrow> None | Some s' \<Rightarrow> run n rest s')"

definition emptyOperation :: scroll_operation where
  "emptyOperation =
     \<lparr>op_id = 0, targetIndex = 0, behavior = Auto, callback = False,
      correctionsRemaining = 0, pendingCorrection = False,
      stabilityTimeoutId = None, pinTimeoutId = None, scheduleFrameId = None,
      status = Initial, maintainPosition = False, isPinned = False,
      isProgrammaticScroll = False, lastMeasurementTimestamp = 0,
      hasMeasuredTarget = False, stableIterations = 0,
      pendingAnchorDelta = 0, anchorFrameId = None, initialAlignmentPerformed = False\<rparr>"

text \<open>The controller as the hook creates it: no operation, nothing scheduled.\<close>

definition initialController :: controller where
  "initialController =
     \<lparr>operationRef = None, ops = (\<lambda>_. emptyOperation), scrollListenerRef = False,
      operationIdRef = 0, stabilityTimer = None, pinTimer = None, anchorTimer = None,
      programmaticFrame = None, correctionFrame = None, anchorFrame = None,
      nextHandle = 1, scrollTop = 0, scrollLeft = 0, domListener = False, effects = []\<rparr>"

section \<open>Notions used to state the properties\<close>

text \<open>The operation id that a scheduled closure captured when it was created.\<close>

definition capturedId :: "scheduled \<Rightarrow> nat" where
  "capturedId c =
     (case c of
        ProgrammaticReset k \<Rightarrow> k
      | CommitAnchor k \<Rightarrow> k
      | PinExpiry k \<Rightarrow> k
      | RunCheck k \<Rightarrow> k
      | ExecuteCorrection k \<Rightarrow> k)"

text \<open>A closure is stale when no operation is active or the active one has another id.\<close>

definition stale :: "nat \<Rightarrow> controller \<Rightarrow> bool" where
  "stale k s =
     (case operationRef s of None \<Rightarrow> True | Some active \<Rightarrow> op_id (ops s active) \<noteq> k)"

definition isOperationCallback :: "nat \<Rightarrow> effect \<Rightarrow> bool" where
  "isOperationCallback k x = (case x of OperationCallback k' i \<Rightarrow> k' = k | _ \<Rightarrow> False)"

definition isOnOperationComplete :: "nat \<Rightarrow> effect \<Rightarrow> bool" where
  "isOnOperationComplete k x = (case x of OnOperationComplete k' i \<Rightarrow> k' = k | _ \<Rightarrow> False)"

definition isCancellation :: "effect \<Rightarrow> bool" where
  "isCancellation x = (case x of OnOperationCancel i why \<Rightarrow> True | _ \<Rightarrow> False)"

definition isPinRelease :: "effect \<Rightarrow> bool" where
  "isPinRelease x = (case x of OnPinReleased i \<Rightarrow> True | _ \<Rightarrow> False)"

definition isScrollCommand :: "effect \<Rightarrow> bool" where
  "isScrollCommand x =
     (case x of
        ScrollTopAdd d \<Rightarrow> True
      | ScrollLeftAdd d \<Rightarrow> True
      | ScrollTo offset bhv \<Rightarrow> True
      | ScrollToItemDynamic i bhv \<Rightarrow> True
      | _ \<Rightarrow> False)"

definition countOf :: "(effect \<Rightarrow> bool) \<Rightarrow> controller \<Rightarrow> nat" where
  "countOf P s = length (filter P (effects s))"

definition cancellations :: "controller \<Rightarrow> effect list" where
  "cancellations s = filter isCancellation (effects s)"

definition pinReleases :: "controller \<Rightarrow> effect list" where
  "pinReleases s = filter isPinRelease (effects s)"

definition scrollCommands :: "controller \<Rightarrow> effect list" where
  "scrollCommands s = filter isScrollCommand (effects s)"

text \<open>
  \<open>advances r s s'\<close>: what a piece of the controller working on the record at \<open>r\<close> may
  do between \<open>s\<close> and \<open>s'\<close>. It touches no other record, allocates none, invokes no
  cancellation callback, never sets a stable record back, invokes the completion
  callbacks of \<open>r\<close> at most once and only while making \<open>r\<close> stable, and never raises the
  correction budget.
\<close>

definition advances :: "nat \<Rightarrow> controller \<Rightarrow> controller \<Rightarrow> bool" where
  "advances r s s' \<longleftrightarrow>
     operationIdRef s' = operationIdRef s
   \<and> (operationRef s' = operationRef s \<or> operationRef s' = None)
   \<and> cancellations s' = cancellations s
   \<and> (\<forall>k. k \<noteq> r \<longrightarrow> ops s' k = ops s k)
   \<and> (\<forall>k. k \<noteq> r \<or> status (ops s r) = Stable \<longrightarrow>
          countOf (isOperationCallback k) s' = countOf (isOperationCallback k) s
        \<and> countOf (isOnOperationComplete k) s' = countOf (isOnOperationComplete k) s)
   \<and> (status (ops s r) = Stable \<longrightarrow> status (ops s' r) = Stable)
   \<and> countOf (isOperationCallback r) s' \<le> countOf (isOperationCallback r) s + 1
   \<and> countOf (isOnOperationComplete r) s' \<le> countOf (isOnOperationComplete r) s + 1
   \<and> (countOf (isOperationCallback r) s' \<noteq> countOf (isOperationCallback r) s
        \<or> countOf (isOnOperationComplete r) s' \<noteq> countOf (isOnOperationComplete r) s
        \<longrightarrow> status (ops s' r) = Stable)
   \<and> correctionsRemaining (ops s' r) \<le> correctionsRemaining (ops s r)
   \<and> op_id (ops s' r) = op_id (ops s r)"

definition advancesO :: "nat \<Rightarrow> controller \<Rightarrow> controller option \<Rightarrow> bool" where
  "advancesO r s m = (case m of None \<Rightarrow> True | Some s' \<Rightarrow> advances r s s')"

text \<open>A host with frames and timers, in which nothing runs synchronously.\<close>

definition liveHost :: "env \<Rightarrow> bool" where
  "liveHost e \<longleftrightarrow> hasAnimationFrame e \<and> hasTimeout e \<and> timeoutHookLive e"

definition isStart :: "event \<Rightarrow> bool" where
  "isStart ev = (case ev of Start index bhv cb \<Rightarrow> True | _ \<Rightarrow> False)"

text \<open>The record at \<open>r\<close> is the active one, or none is.\<close>

definition actsOn :: "nat \<Rightarrow> controller \<Rightarrow> bool" where
  "actsOn r s \<longleftrightarrow> operationRef s = Some r \<or> operationRef s = None"

definition activeAddr :: "controller \<Rightarrow> nat" where
  "activeAddr s = (case operationRef s of Some a \<Rightarrow> a | None \<Rightarrow> 0)"

text \<open>Both schedulers, at fuel \<open>n\<close>, stay within \<open>advances\<close>.\<close>

definition okAt :: "nat \<Rightarrow> bool" where
  "okAt n \<longleftrightarrow>
     (\<forall>e r s. actsOn r s \<longrightarrow> advancesO r s (scheduleCorrection n e r s))
   \<and> (\<forall>e r s. actsOn r s \<longrightarrow> advancesO r s (scheduleStabilityCheck n e r s))"

text \<open>
  The invariant behind "at most once": the active record has been allocated, and a
  record whose completion callbacks have been invoked is allocated, stable, and had
  each of them invoked once.
\<close>

definition finalizedOnce :: "controller \<Rightarrow> bool" where
  "finalizedOnce s \<longleftrightarrow>
     (\<forall>a. operationRef s = Some a \<longrightarrow> a \<le> operationIdRef s)
   \<and> (\<forall>k. countOf (isOperationCallback k) s \<le> 1
          \<and> countOf (isOnOperationComplete k) s \<le> 1
          \<and> (countOf (isOperationCallback k) s \<noteq> 0
               \<or> countOf (isOnOperationComplete k) s \<noteq> 0
               \<longrightarrow> status (ops s k) = Stable \<and> k \<le> operationIdRef s))"





subsection \<open>Concrete hosts and states\<close>

text \<open>
  A vertical list in a browser with frames and timers, target element 5 placed 50
  units below the top of the container, a budget of one correction and a pin of 100
  time units.
\<close>

definition hostOffset :: env where
  "hostOffset =
     \<lparr>axis = Vertical, reversed = False, getOffsetForIndex = None,
      maintainPositionParam = True, maxCorrections = 1, pinDuration = Some 100,
      setFlaggedIndex = True, onOperationComplete = True, onOperationCancel = True,
      onPinReleased = True,
      scrollViewRect =
        Some \<lparr>rect_top = 0, rect_left = 0, rect_bottom = 600, rect_right = 800\<rparr>,
      elementRect =
        (\<lambda>i. if i = 5
             then Some \<lparr>rect_top = 50, rect_left = 0, rect_bottom = 150, rect_right = 800\<rparr>
             else None),
      hasAnimationFrame = True, hasTimeout = True, timeoutHookLive = True, now = 0\<rparr>"

text \<open>The same host with the target element at the top of the container.\<close>

definition hostAligned :: env where
  "hostAligned =
     hostOffset\<lparr>elementRect :=
        (\<lambda>i. if i = 5
             then Some \<lparr>rect_top = 0, rect_left = 0, rect_bottom = 100, rect_right = 800\<rparr>
             else None)\<rparr>"

text \<open>The same host while \<open>scrollViewRef.current\<close> is null.\<close>

definition hostDetached :: env where
  "hostDetached = hostOffset\<lparr>scrollViewRect := None\<rparr>"

text \<open>A controller whose operation 1 (target 5) is stable and pinned.\<close>

definition pinnedOperation :: scroll_operation where
  "pinnedOperation =
     \<lparr>op_id = 1, targetIndex = 5, behavior = Instant, callback = True,
      correctionsRemaining = 0, pendingCorrection = False,
      stabilityTimeoutId = None, pinTimeoutId = Some 4, scheduleFrameId = None,
      status = Stable, maintainPosition = True, isPinned = True,
      isProgrammaticScroll = False, lastMeasurementTimestamp = 0,
      hasMeasuredTarget = True, stableIterations = 0,
      pendingAnchorDelta = 0, anchorFrameId = None, initialAlignmentPerformed = True\<rparr>"

definition pinnedController :: controller where
  "pinnedController =
     \<lparr>operationRef = Some 1, ops = (\<lambda>_. emptyOperation)(1 := pinnedOperation),
      scrollListenerRef = True, operationIdRef = 1, stabilityTimer = None,
      pinTimer = Some (PinExpiry 1), anchorTimer = None, programmaticFrame = None,
      correctionFrame = None, anchorFrame = None, nextHandle = 5, scrollTop = 400,
      scrollLeft = 0, domListener = True, effects = []\<rparr>"

text \<open>
  A controller whose operation 1 (target 5, already measured) is still converging, with
  no coalescing callback outstanding.
\<close>

definition convergingOperation :: scroll_operation where
  "convergingOperation =
     \<lparr>op_id = 1, targetIndex = 5, behavior = Instant, callback = True,
      correctionsRemaining = 0, pendingCorrection = False,
      stabilityTimeoutId = Some 3, pinTimeoutId = None, scheduleFrameId = None,
      status = Initial, maintainPosition = True, isPinned = False,
      isProgrammaticScroll = False, lastMeasurementTimestamp = 0,
      hasMeasuredTarget = True, stableIterations = 2,
      pendingAnchorDelta = 0, anchorFrameId = None, initialAlignmentPerformed = True\<rparr>"

definition convergingController :: controller where
  "convergingController =
     \<lparr>operationRef = Some 1, ops = (\<lambda>_. emptyOperation)(1 := convergingOperation),
      scrollListenerRef = True, operationIdRef = 1, stabilityTimer = Some (RunCheck 1),
      pinTimer = None, anchorTimer = None, programmaticFrame = None,
      correctionFrame = None, anchorFrame = None, nextHandle = 4, scrollTop = 400,
      scrollLeft = 0, domListener = True, effects = []\<rparr>"

text \<open>
  Operation 2 is active while a frame requested under operation 1 is still in its slot.
\<close>

definition supersededController :: controller where
  "supersededController =
     convergingController
       \<lparr>operationRef := Some 2,
        ops := (\<lambda>_. emptyOperation)(1 := convergingOperation,
                 2 := convergingOperation\<lparr>op_id := 2, targetIndex := 9\<rparr>),
        operationIdRef := 2, stabilityTimer := Some (RunCheck 2),
        programmaticFrame := Some (ProgrammaticReset 1)\<rparr>"

text \<open>
  The converging controller after an upstream delta of one tenth of a unit was absorbed
  without scheduling a coalescing callback.
\<close>

definition residueController :: controller where
  "residueController =
     convergingController
       \<lparr>ops := (\<lambda>_. emptyOperation)(1 := convergingOperation\<lparr>pendingAnchorDelta := 1 / 10\<rparr>)\<rparr>"

text \<open>
  A run that completes: the target is measured, the correction frame finds it aligned
  and finalizes; a stability timer and a render notification follow.
\<close>

definition completedRun :: "(env \<times> event) list" where
  "completedRun =
     [(hostOffset, Start 5 Instant True),
      (hostOffset, HandleItemMeasured 5 100 100),
      (hostAligned, Fire CorrectionFrame),
      (hostAligned, Fire StabilityTimer),
      (hostAligned, HandleRendered 5)]"


text \<open>
  A run in which the stability timer fires before the correction frame and the target
  never reaches the top of the container (the host clamps the scroll position, as it
  does for a target near the end of the list): the budget is one correction.
\<close>

definition stuckRun :: "(env \<times> event) list" where
  "stuckRun =
     [(hostOffset, Start 5 Instant True),
      (hostOffset, HandleItemMeasured 5 100 100),
      (hostOffset, Fire StabilityTimer),
      (hostOffset, Fire CorrectionFrame),
      (hostOffset, Fire StabilityTimer),
      (hostOffset, Fire StabilityTimer),
      (hostOffset, Fire StabilityTimer)]"

text \<open>
  The same host and target with the events in their usual order: the correction frame
  spends the budget, then the stability timer fires three times.
\<close>

definition exhaustedRun :: "(env \<times> event) list" where
  "exhaustedRun =
     [(hostOffset, Start 5 Instant True),
      (hostOffset, HandleItemMeasured 5 100 100),
      (hostOffset, Fire CorrectionFrame),
      (hostOffset, Fire StabilityTimer),
      (hostOffset, Fire StabilityTimer),
      (hostOffset, Fire StabilityTimer)]"

text \<open>
  Two runs that end with the pin-expiry timer. In both, an element above the target is
  measured before the correction frame finalizes and pins the operation. In the first
  the coalescing callback fires while the operation is pinned and arms the stability
  timer; in the second the pin expires before the coalescing callback fires.
\<close>

definition pinExpiryRun :: "(env \<times> event) list" where
  "pinExpiryRun =
     [(hostOffset, Start 5 Instant True),
      (hostOffset, HandleItemMeasured 5 100 100),
      (hostOffset, HandleItemMeasured 3 50 10),
      (hostAligned, Fire CorrectionFrame),
      (hostAligned, Fire AnchorFrame),
      (hostAligned, Fire PinTimer)]"

definition earlyPinExpiryRun :: "(env \<times> event) list" where
  "earlyPinExpiryRun =
     [(hostOffset, Start 5 Instant True),
      (hostOffset, HandleItemMeasured 5 100 100),
      (hostOffset, HandleItemMeasured 3 50 10),
      (hostAligned, Fire CorrectionFrame),
      (hostAligned, Fire PinTimer)]"



section \<open>Properties\<close>

subsection \<open>Alignment evaluation\<close>

text \<open>
  C9, as stated, fails: with the target element present and the scroll container
  absent the evaluation reports that the element exists and is not aligned, while both
  reported magnitudes are zero and so within the tolerance.
\<close>

theorem alignment_iff_counterexample:
  "\<not> (aligned (evaluateTargetAlignment hostDetached 5)
        \<longleftrightarrow> \<bar>startDelta (evaluateTargetAlignment hostDetached 5)\<bar> \<le> 1
              \<and> endOverflow (evaluateTargetAlignment hostDetached 5) \<le> 1)"
  by (simp add: evaluateTargetAlignment_def hostDetached_def hostOffset_def)

text \<open>
  C9 (amended). The reported trailing overflow is never negative. When the scroll
  container and the target element are both present, the evaluation reports that the
  element exists, the leading delta is the distance between the leading edges, the
  trailing overflow is the overflow past the trailing edge floored at zero, and
  \<open>aligned\<close> holds iff both magnitudes are within one unit. When the element cannot be
  located it reports exists = false and aligned = false. When the element is present
  but the container is not, it reports exists = true, aligned = false and both
  magnitudes zero.
\<close>

theorem evaluateTargetAlignment_spec:
  "0 \<le> endOverflow (evaluateTargetAlignment e index)
   \<and> (scrollViewRect e \<noteq> None \<and> elementRect e index \<noteq> None \<longrightarrow>
        elementExists (evaluateTargetAlignment e index)
      \<and> (aligned (evaluateTargetAlignment e index)
           \<longleftrightarrow> \<bar>startDelta (evaluateTargetAlignment e index)\<bar> \<le> 1
                 \<and> endOverflow (evaluateTargetAlignment e index) \<le> 1))
   \<and> (\<forall>c r. scrollViewRect e = Some c \<and> elementRect e index = Some r \<longrightarrow>
        startDelta (evaluateTargetAlignment e index) =
          (if axis e = Vertical then rect_top r - rect_top c else rect_left r - rect_left c)
      \<and> endOverflow (evaluateTargetAlignment e index) =
          max 0 (if axis e = Vertical then rect_bottom r - rect_bottom c
                 else rect_right r - rect_right c))
   \<and> (elementRect e index = None \<longrightarrow>
        \<not> elementExists (evaluateTargetAlignment e index)
      \<and> \<not> aligned (evaluateTargetAlignment e index))
   \<and> (scrollViewRect e = None \<and> elementRect e index \<noteq> None \<longrightarrow>
        elementExists (evaluateTargetAlignment e index)
      \<and> \<not> aligned (evaluateTargetAlignment e index)
      \<and> startDelta (evaluateTargetAlignment e index) = 0
      \<and> endOverflow (evaluateTargetAlignment e index) = 0)"
proof (cases "scrollViewRect e")
  case None
  then show ?thesis
    by (cases "elementRect e index") (simp_all add: evaluateTargetAlignment_def)
next
  case (Some c)
  then show ?thesis
    by (cases "elementRect e index")
       (simp_all add: evaluateTargetAlignment_def VIEWPORT_TOLERANCE_def Let_def)
qed

theorem evaluateTargetAlignment_spec_witness:
  "scrollViewRect hostOffset \<noteq> None \<and> elementRect hostOffset 5 \<noteq> None
   \<and> elementExists (evaluateTargetAlignment hostOffset 5)
   \<and> startDelta (evaluateTargetAlignment hostOffset 5) = 50
   \<and> endOverflow (evaluateTargetAlignment hostOffset 5) = 0
   \<and> \<not> aligned (evaluateTargetAlignment hostOffset 5)
   \<and> aligned (evaluateTargetAlignment hostAligned 5)
   \<and> elementRect hostOffset 7 = None
   \<and> \<not> elementExists (evaluateTargetAlignment hostOffset 7)
   \<and> scrollViewRect hostDetached = None \<and> elementRect hostDetached 5 \<noteq> None
   \<and> elementExists (evaluateTargetAlignment hostDetached 5)
   \<and> \<not> aligned (evaluateTargetAlignment hostDetached 5)"
  using evaluateTargetAlignment_spec [of hostOffset 5]
    evaluateTargetAlignment_spec [of hostAligned 5]
    evaluateTargetAlignment_spec [of hostOffset 7]
    evaluateTargetAlignment_spec [of hostDetached 5]
  by (simp add: hostOffset_def hostAligned_def hostDetached_def)

subsection \<open>Stale callbacks\<close>

lemma stale_emptySlot: "stale k (emptySlot sl s) = stale k s"
  by (cases sl) (simp_all add: stale_def emptySlot_def split: option.splits)

lemma runScheduled_stale: "stale (capturedId c) s \<Longrightarrow> runScheduled n e c s = Some s"
  by (cases c)
     (auto simp: stale_def capturedId_def runScheduled_def programmaticScrollReset_def
        commitAnchor_def pinExpired_def runCheck_def executeCorrection_def
        split: option.splits)

text \<open>
  C1. A scheduled callback (programmatic-scroll reset, anchor coalescing callback,
  pin-expiry timer, stability timer, correction frame) that captured operation id
  \<open>k\<close> and fires when no operation is active, or when the active operation has
  another id, returns the state it was given: no record is mutated and no scroll
  command is issued. Fired from its slot, all that changes is that the slot is empty.
\<close>

theorem stale_callback_is_noop:
  assumes "stale (capturedId c) s"
  shows "runScheduled n e c s = Some s
       \<and> (slotContent sl s = Some c \<longrightarrow> step n e (Fire sl) s = Some (emptySlot sl s))"
proof -
  have "stale (capturedId c) (emptySlot sl s)"
    using assms by (simp add: stale_emptySlot)
  then have "runScheduled n e c (emptySlot sl s) = Some (emptySlot sl s)"
    by (rule runScheduled_stale)
  then show ?thesis
    using runScheduled_stale [OF assms] by (simp add: step_def)
qed

theorem stale_callback_is_noop_witness:
  "stale (capturedId (ProgrammaticReset 1)) supersededController
   \<and> slotContent ProgrammaticFrame supersededController = Some (ProgrammaticReset 1)
   \<and> runScheduled 3 hostOffset (ProgrammaticReset 1) supersededController
       = Some supersededController
   \<and> step 3 hostOffset (Fire ProgrammaticFrame) supersededController
       = Some (emptySlot ProgrammaticFrame supersededController)"
proof -
  have st: "stale (capturedId (ProgrammaticReset 1)) supersededController"
    by (simp add: stale_def capturedId_def supersededController_def convergingController_def
        convergingOperation_def)
  have sl: "slotContent ProgrammaticFrame supersededController = Some (ProgrammaticReset 1)"
    by (simp add: slotContent_def supersededController_def convergingController_def)
  show ?thesis
    using stale_callback_is_noop [OF st, of 3 hostOffset ProgrammaticFrame] st sl by simp
qed

subsection \<open>What each elementary step changes\<close>

text \<open>
  One lemma for each elementary state transformer, giving every field of the state
  after it in terms of the state before. The later proofs reason from these and leave
  the transformers folded.
\<close>

lemma handle_None_triv:
  "stabilityTimeoutId x = None \<Longrightarrow> x\<lparr>stabilityTimeoutId := None\<rparr> = x"
  "pinTimeoutId x = None \<Longrightarrow> x\<lparr>pinTimeoutId := None\<rparr> = x"
  "scheduleFrameId x = None \<Longrightarrow> x\<lparr>scheduleFrameId := None\<rparr> = x"
  "anchorFrameId x = None \<Longrightarrow> x\<lparr>anchorFrameId := None\<rparr> = x"
  by (cases x; simp)+

lemma modify_fields:
  "operationRef (modify r f s) = operationRef s"
  "ops (modify r f s) = (ops s)(r := f (ops s r))"
  "scrollListenerRef (modify r f s) = scrollListenerRef s"
  "operationIdRef (modify r f s) = operationIdRef s"
  "stabilityTimer (modify r f s) = stabilityTimer s"
  "pinTimer (modify r f s) = pinTimer s"
  "anchorTimer (modify r f s) = anchorTimer s"
  "programmaticFrame (modify r f s) = programmaticFrame s"
  "correctionFrame (modify r f s) = correctionFrame s"
  "anchorFrame (modify r f s) = anchorFrame s"
  "nextHandle (modify r f s) = nextHandle s"
  "scrollTop (modify r f s) = scrollTop s"
  "scrollLeft (modify r f s) = scrollLeft s"
  "domListener (modify r f s) = domListener s"
  "effects (modify r f s) = effects s"
  by (auto simp: modify_def)

lemma emit_fields:
  "operationRef (emit x s) = operationRef s"
  "ops (emit x s) = ops s"
  "scrollListenerRef (emit x s) = scrollListenerRef s"
  "operationIdRef (emit x s) = operationIdRef s"
  "stabilityTimer (emit x s) = stabilityTimer s"
  "pinTimer (emit x s) = pinTimer s"
  "anchorTimer (emit x s) = anchorTimer s"
  "programmaticFrame (emit x s) = programmaticFrame s"
  "correctionFrame (emit x s) = correctionFrame s"
  "anchorFrame (emit x s) = anchorFrame s"
  "nextHandle (emit x s) = nextHandle s"
  "scrollTop (emit x s) = scrollTop s"
  "scrollLeft (emit x s) = scrollLeft s"
  "domListener (emit x s) = domListener s"
  "effects (emit x s) = effects s @ [x]"
  by (auto simp: emit_def)

lemma clearStabilityTimeout_fields:
  "operationRef (clearStabilityTimeout r s) = operationRef s"
  "ops (clearStabilityTimeout r s) = (ops s)(r := (ops s r)\<lparr>stabilityTimeoutId := None\<rparr>)"
  "scrollListenerRef (clearStabilityTimeout r s) = scrollListenerRef s"
  "operationIdRef (clearStabilityTimeout r s) = operationIdRef s"
  "stabilityTimer (clearStabilityTimeout r s) = (if stabilityTimeoutId (ops s r) = None then stabilityTimer s else None)"
  "pinTimer (clearStabilityTimeout r s) = pinTimer s"
  "anchorTimer (clearStabilityTimeout r s) = anchorTimer s"
  "programmaticFrame (clearStabilityTimeout r s) = programmaticFrame s"
  "correctionFrame (clearStabilityTimeout r s) = correctionFrame s"
  "anchorFrame (clearStabilityTimeout r s) = anchorFrame s"
  "nextHandle (clearStabilityTimeout r s) = nextHandle s"
  "scrollTop (clearStabilityTimeout r s) = scrollTop s"
  "scrollLeft (clearStabilityTimeout r s) = scrollLeft s"
  "domListener (clearStabilityTimeout r s) = domListener s"
  "effects (clearStabilityTimeout r s) = effects s"
  by (cases "stabilityTimeoutId (ops s r)"; simp add: clearStabilityTimeout_def modify_def handle_None_triv)+

lemma clearPinTimeout_fields:
  "operationRef (clearPinTimeout r s) = operationRef s"
  "ops (clearPinTimeout r s) = (ops s)(r := (ops s r)\<lparr>pinTimeoutId := None\<rparr>)"
  "scrollListenerRef (clearPinTimeout r s) = scrollListenerRef s"
  "operationIdRef (clearPinTimeout r s) = operationIdRef s"
  "stabilityTimer (clearPinTimeout r s) = stabilityTimer s"
  "pinTimer (clearPinTimeout r s) = (if pinTimeoutId (ops s r) = None then pinTimer s else None)"
  "anchorTimer (clearPinTimeout r s) = anchorTimer s"
  "programmaticFrame (clearPinTimeout r s) = programmaticFrame s"
  "correctionFrame (clearPinTimeout r s) = correctionFrame s"
  "anchorFrame (clearPinTimeout r s) = anchorFrame s"
  "nextHandle (clearPinTimeout r s) = nextHandle s"
  "scrollTop (clearPinTimeout r s) = scrollTop s"
  "scrollLeft (clearPinTimeout r s) = scrollLeft s"
  "domListener (clearPinTimeout r s) = domListener s"
  "effects (clearPinTimeout r s) = effects s"
  by (cases "pinTimeoutId (ops s r)"; simp add: clearPinTimeout_def modify_def handle_None_triv)+

lemma cancelScheduledFrame_fields:
  "operationRef (cancelScheduledFrame r s) = operationRef s"
  "ops (cancelScheduledFrame r s) = (ops s)(r := (ops s r)\<lparr>scheduleFrameId := None\<rparr>)"
  "scrollListenerRef (cancelScheduledFrame r s) = scrollListenerRef s"
  "operationIdRef (cancelScheduledFrame r s) = operationIdRef s"
  "stabilityTimer (cancelScheduledFrame r s) = stabilityTimer s"
  "pinTimer (cancelScheduledFrame r s) = pinTimer s"
  "anchorTimer (cancelScheduledFrame r s) = anchorTimer s"
  "programmaticFrame (cancelScheduledFrame r s) = programmaticFrame s"
  "correctionFrame (cancelScheduledFrame r s) = (if scheduleFrameId (ops s r) = None then correctionFrame s else None)"
  "anchorFrame (cancelScheduledFrame r s) = anchorFrame s"
  "nextHandle (cancelScheduledFrame r s) = nextHandle s"
  "scrollTop (cancelScheduledFrame r s) = scrollTop s"
  "scrollLeft (cancelScheduledFrame r s) = scrollLeft s"
  "domListener (cancelScheduledFrame r s) = domListener s"
  "effects (cancelScheduledFrame r s) = effects s"
  by (cases "scheduleFrameId (ops s r)"; simp add: cancelScheduledFrame_def modify_def handle_None_triv)+

lemma cancelAnchorFrame_fields:
  "operationRef (cancelAnchorFrame r s) = operationRef s"
  "ops (cancelAnchorFrame r s) = (ops s)(r := (ops s r)\<lparr>anchorFrameId := None, pendingAnchorDelta := (if anchorFrameId (ops s r) = None then pendingAnchorDelta (ops s r) else 0)\<rparr>)"
  "scrollListenerRef (cancelAnchorFrame r s) = scrollListenerRef s"
  "operationIdRef (cancelAnchorFrame r s) = operationIdRef s"
  "stabilityTimer (cancelAnchorFrame r s) = stabilityTimer s"
  "pinTimer (cancelAnchorFrame r s) = pinTimer s"
  "anchorTimer (cancelAnchorFrame r s) = (if anchorFrameId (ops s r) = None then anchorTimer s else None)"
  "programmaticFrame (cancelAnchorFrame r s) = programmaticFrame s"
  "correctionFrame (cancelAnchorFrame r s) = correctionFrame s"
  "anchorFrame (cancelAnchorFrame r s) = (if anchorFrameId (ops s r) = None then anchorFrame s else None)"
  "nextHandle (cancelAnchorFrame r s) = nextHandle s"
  "scrollTop (cancelAnchorFrame r s) = scrollTop s"
  "scrollLeft (cancelAnchorFrame r s) = scrollLeft s"
  "domListener (cancelAnchorFrame r s) = domListener s"
  "effects (cancelAnchorFrame r s) = effects s"
  by (cases "anchorFrameId (ops s r)"; simp add: cancelAnchorFrame_def modify_def handle_None_triv)+

lemma detachScrollListener_fields:
  "operationRef (detachScrollListener e s) = operationRef s"
  "ops (detachScrollListener e s) = ops s"
  "scrollListenerRef (detachScrollListener e s) = False"
  "operationIdRef (detachScrollListener e s) = operationIdRef s"
  "stabilityTimer (detachScrollListener e s) = stabilityTimer s"
  "pinTimer (detachScrollListener e s) = pinTimer s"
  "anchorTimer (detachScrollListener e s) = anchorTimer s"
  "programmaticFrame (detachScrollListener e s) = programmaticFrame s"
  "correctionFrame (detachScrollListener e s) = correctionFrame s"
  "anchorFrame (detachScrollListener e s) = anchorFrame s"
  "nextHandle (detachScrollListener e s) = nextHandle s"
  "scrollTop (detachScrollListener e s) = scrollTop s"
  "scrollLeft (detachScrollListener e s) = scrollLeft s"
  "domListener (detachScrollListener e s) = (if scrollListenerRef s \<and> scrollViewRect e \<noteq> None then False else domListener s)"
  "effects (detachScrollListener e s) = effects s @ (if scrollListenerRef s \<and> scrollViewRect e \<noteq> None then [RemoveScrollListener] else [])"
  by (auto simp: detachScrollListener_def emit_def)

lemma callSetFlaggedIndex_fields:
  "operationRef (callSetFlaggedIndex e i s) = operationRef s"
  "ops (callSetFlaggedIndex e i s) = ops s"
  "scrollListenerRef (callSetFlaggedIndex e i s) = scrollListenerRef s"
  "operationIdRef (callSetFlaggedIndex e i s) = operationIdRef s"
  "stabilityTimer (callSetFlaggedIndex e i s) = stabilityTimer s"
  "pinTimer (callSetFlaggedIndex e i s) = pinTimer s"
  "anchorTimer (callSetFlaggedIndex e i s) = anchorTimer s"
  "programmaticFrame (callSetFlaggedIndex e i s) = programmaticFrame s"
  "correctionFrame (callSetFlaggedIndex e i s) = correctionFrame s"
  "anchorFrame (callSetFlaggedIndex e i s) = anchorFrame s"
  "nextHandle (callSetFlaggedIndex e i s) = nextHandle s"
  "scrollTop (callSetFlaggedIndex e i s) = scrollTop s"
  "scrollLeft (callSetFlaggedIndex e i s) = scrollLeft s"
  "domListener (callSetFlaggedIndex e i s) = domListener s"
  "effects (callSetFlaggedIndex e i s) = effects s @ (if setFlaggedIndex e then [SetFlaggedIndex i] else [])"
  by (auto simp: callSetFlaggedIndex_def emit_def)

lemma callOnPinReleased_fields:
  "operationRef (callOnPinReleased e i s) = operationRef s"
  "ops (callOnPinReleased e i s) = ops s"
  "scrollListenerRef (callOnPinReleased e i s) = scrollListenerRef s"
  "operationIdRef (callOnPinReleased e i s) = operationIdRef s"
  "stabilityTimer (callOnPinReleased e i s) = stabilityTimer s"
  "pinTimer (callOnPinReleased e i s) = pinTimer s"
  "anchorTimer (callOnPinReleased e i s) = anchorTimer s"
  "programmaticFrame (callOnPinReleased e i s) = programmaticFrame s"
  "correctionFrame (callOnPinReleased e i s) = correctionFrame s"
  "anchorFrame (callOnPinReleased e i s) = anchorFrame s"
  "nextHandle (callOnPinReleased e i s) = nextHandle s"
  "scrollTop (callOnPinReleased e i s) = scrollTop s"
  "scrollLeft (callOnPinReleased e i s) = scrollLeft s"
  "domListener (callOnPinReleased e i s) = domListener s"
  "effects (callOnPinReleased e i s) = effects s @ (if onPinReleased e then [OnPinReleased i] else [])"
  by (auto simp: callOnPinReleased_def emit_def)

lemma callOperationCallback_fields:
  "operationRef (callOperationCallback r s) = operationRef s"
  "ops (callOperationCallback r s) = ops s"
  "scrollListenerRef (callOperationCallback r s) = scrollListenerRef s"
  "operationIdRef (callOperationCallback r s) = operationIdRef s"
  "stabilityTimer (callOperationCallback r s) = stabilityTimer s"
  "pinTimer (callOperationCallback r s) = pinTimer s"
  "anchorTimer (callOperationCallback r s) = anchorTimer s"
  "programmaticFrame (callOperationCallback r s) = programmaticFrame s"
  "correctionFrame (callOperationCallback r s) = correctionFrame s"
  "anchorFrame (callOperationCallback r s) = anchorFrame s"
  "nextHandle (callOperationCallback r s) = nextHandle s"
  "scrollTop (callOperationCallback r s) = scrollTop s"
  "scrollLeft (callOperationCallback r s) = scrollLeft s"
  "domListener (callOperationCallback r s) = domListener s"
  "effects (callOperationCallback r s) = effects s @ (if callback (ops s r) then [OperationCallback r (targetIndex (ops s r))] else [])"
  by (auto simp: callOperationCallback_def emit_def)

lemma callOnOperationComplete_fields:
  "operationRef (callOnOperationComplete e r s) = operationRef s"
  "ops (callOnOperationComplete e r s) = ops s"
  "scrollListenerRef (callOnOperationComplete e r s) = scrollListenerRef s"
  "operationIdRef (callOnOperationComplete e r s) = operationIdRef s"
  "stabilityTimer (callOnOperationComplete e r s) = stabilityTimer s"
  "pinTimer (callOnOperationComplete e r s) = pinTimer s"
  "anchorTimer (callOnOperationComplete e r s) = anchorTimer s"
  "programmaticFrame (callOnOperationComplete e r s) = programmaticFrame s"
  "correctionFrame (callOnOperationComplete e r s) = correctionFrame s"
  "anchorFrame (callOnOperationComplete e r s) = anchorFrame s"
  "nextHandle (callOnOperationComplete e r s) = nextHandle s"
  "scrollTop (callOnOperationComplete e r s) = scrollTop s"
  "scrollLeft (callOnOperationComplete e r s) = scrollLeft s"
  "domListener (callOnOperationComplete e r s) = domListener s"
  "effects (callOnOperationComplete e r s) = effects s @ (if onOperationComplete e then [OnOperationComplete r (targetIndex (ops s r))] else [])"
  by (auto simp: callOnOperationComplete_def emit_def)

lemma ensureScrollListener_fields:
  "operationRef (ensureScrollListener e s) = operationRef s"
  "ops (ensureScrollListener e s) = ops s"
  "scrollListenerRef (ensureScrollListener e s) = (scrollListenerRef s \<or> scrollViewRect e \<noteq> None)"
  "operationIdRef (ensureScrollListener e s) = operationIdRef s"
  "stabilityTimer (ensureScrollListener e s) = stabilityTimer s"
  "pinTimer (ensureScrollListener e s) = pinTimer s"
  "anchorTimer (ensureScrollListener e s) = anchorTimer s"
  "programmaticFrame (ensureScrollListener e s) = programmaticFrame s"
  "correctionFrame (ensureScrollListener e s) = correctionFrame s"
  "anchorFrame (ensureScrollListener e s) = anchorFrame s"
  "nextHandle (ensureScrollListener e s) = nextHandle s"
  "scrollTop (ensureScrollListener e s) = scrollTop s"
  "scrollLeft (ensureScrollListener e s) = scrollLeft s"
  "domListener (ensureScrollListener e s) = (if scrollListenerRef s \<or> scrollViewRect e = None then domListener s else True)"
  "effects (ensureScrollListener e s) = effects s @ (if scrollListenerRef s \<or> scrollViewRect e = None then [] else [AddScrollListener])"
  by (auto simp: ensureScrollListener_def emit_def)

lemma scheduleProgrammaticScrollReset_fields:
  "operationRef (scheduleProgrammaticScrollReset r s) = operationRef s"
  "ops (scheduleProgrammaticScrollReset r s) = ops s"
  "scrollListenerRef (scheduleProgrammaticScrollReset r s) = scrollListenerRef s"
  "operationIdRef (scheduleProgrammaticScrollReset r s) = operationIdRef s"
  "stabilityTimer (scheduleProgrammaticScrollReset r s) = stabilityTimer s"
  "pinTimer (scheduleProgrammaticScrollReset r s) = pinTimer s"
  "anchorTimer (scheduleProgrammaticScrollReset r s) = anchorTimer s"
  "programmaticFrame (scheduleProgrammaticScrollReset r s) = Some (ProgrammaticReset (op_id (ops s r)))"
  "correctionFrame (scheduleProgrammaticScrollReset r s) = correctionFrame s"
  "anchorFrame (scheduleProgrammaticScrollReset r s) = anchorFrame s"
  "nextHandle (scheduleProgrammaticScrollReset r s) = nextHandle s + 1"
  "scrollTop (scheduleProgrammaticScrollReset r s) = scrollTop s"
  "scrollLeft (scheduleProgrammaticScrollReset r s) = scrollLeft s"
  "domListener (scheduleProgrammaticScrollReset r s) = domListener s"
  "effects (scheduleProgrammaticScrollReset r s) = effects s"
  by (auto simp: scheduleProgrammaticScrollReset_def)

lemma applyScrollByDelta_fields:
  "operationRef (applyScrollByDelta e r d s) = operationRef s"
  "ops (applyScrollByDelta e r d s) = (if scrollViewRect e = None \<or> d = 0 then ops s else (ops s)(r := (ops s r)\<lparr>isProgrammaticScroll := True\<rparr>))"
  "scrollListenerRef (applyScrollByDelta e r d s) = scrollListenerRef s"
  "operationIdRef (applyScrollByDelta e r d s) = operationIdRef s"
  "stabilityTimer (applyScrollByDelta e r d s) = stabilityTimer s"
  "pinTimer (applyScrollByDelta e r d s) = pinTimer s"
  "anchorTimer (applyScrollByDelta e r d s) = anchorTimer s"
  "programmaticFrame (applyScrollByDelta e r d s) = (if scrollViewRect e = None \<or> d = 0 then programmaticFrame s else Some (ProgrammaticReset (op_id (ops s r))))"
  "correctionFrame (applyScrollByDelta e r d s) = correctionFrame s"
  "anchorFrame (applyScrollByDelta e r d s) = anchorFrame s"
  "nextHandle (applyScrollByDelta e r d s) = (if scrollViewRect e = None \<or> d = 0 then nextHandle s else nextHandle s + 1)"
  "scrollTop (applyScrollByDelta e r d s) = (if scrollViewRect e = None \<or> d = 0 \<or> axis e \<noteq> Vertical then scrollTop s else scrollTop s + (if reversed e then - d else d))"
  "scrollLeft (applyScrollByDelta e r d s) = (if scrollViewRect e = None \<or> d = 0 \<or> axis e = Vertical then scrollLeft s else scrollLeft s + (if reversed e then - d else d))"
  "domListener (applyScrollByDelta e r d s) = domListener s"
  "effects (applyScrollByDelta e r d s) = effects s @ (if scrollViewRect e = None \<or> d = 0 then [] else [if axis e = Vertical then ScrollTopAdd (if reversed e then - d else d) else ScrollLeftAdd (if reversed e then - d else d)])"
  by (auto simp: applyScrollByDelta_def scheduleProgrammaticScrollReset_def modify_def emit_def Let_def)

lemmas fields =
  modify_fields
  emit_fields
  clearStabilityTimeout_fields
  clearPinTimeout_fields
  cancelScheduledFrame_fields
  cancelAnchorFrame_fields
  detachScrollListener_fields
  callSetFlaggedIndex_fields
  callOnPinReleased_fields
  callOperationCallback_fields
  callOnOperationComplete_fields
  ensureScrollListener_fields
  scheduleProgrammaticScrollReset_fields
  applyScrollByDelta_fields


subsection \<open>Teardown\<close>

lemmas filters = scrollCommands_def cancellations_def pinReleases_def countOf_def
  isScrollCommand_def isCancellation_def isPinRelease_def

lemma clearOperation_active:
  assumes "operationRef s = Some a"
  shows "operationRef (clearOperation e reason s) = None"
    and "scrollTop (clearOperation e reason s) = scrollTop s"
    and "scrollLeft (clearOperation e reason s) = scrollLeft s"
    and "effects (clearOperation e reason s) =
           effects s
           @ (if scrollListenerRef s \<and> scrollViewRect e \<noteq> None then [RemoveScrollListener] else [])
           @ (if setFlaggedIndex e then [SetFlaggedIndex None] else [])
           @ (case reason of
                Some why \<Rightarrow> if onOperationCancel e
                            then [OnOperationCancel (targetIndex (ops s a)) why] else []
              | None \<Rightarrow> [])"
    and "ops (clearOperation e reason s) =
           (ops s)(a := (ops s a)\<lparr>stabilityTimeoutId := None, pinTimeoutId := None,
              scheduleFrameId := None, anchorFrameId := None,
              pendingAnchorDelta :=
                (if anchorFrameId (ops s a) = None then pendingAnchorDelta (ops s a) else 0),
              isPinned := False\<rparr>)"
    and "scrollListenerRef (clearOperation e reason s) = False"
    and "stabilityTimer (clearOperation e reason s) =
           (if stabilityTimeoutId (ops s a) = None then stabilityTimer s else None)"
    and "pinTimer (clearOperation e reason s) =
           (if pinTimeoutId (ops s a) = None then pinTimer s else None)"
    and "correctionFrame (clearOperation e reason s) =
           (if scheduleFrameId (ops s a) = None then correctionFrame s else None)"
    and "anchorFrame (clearOperation e reason s) =
           (if anchorFrameId (ops s a) = None then anchorFrame s else None)"
    and "anchorTimer (clearOperation e reason s) =
           (if anchorFrameId (ops s a) = None then anchorTimer s else None)"
    and "operationIdRef (clearOperation e reason s) = operationIdRef s"
  using assms
  by (cases reason; simp add: clearOperation_def Let_def fields fun_eq_iff)+

lemma step_Fire_inactive:
  assumes "operationRef s = None"
  shows "step n e (Fire sl) s = Some s \<or> step n e (Fire sl) s = Some (emptySlot sl s)"
proof (cases "slotContent sl s")
  case None
  then show ?thesis by (simp add: step_def)
next
  case (Some c)
  have "stale (capturedId c) (emptySlot sl s)"
    using assms by (cases sl) (simp_all add: stale_def emptySlot_def)
  then have "runScheduled n e c (emptySlot sl s) = Some (emptySlot sl s)"
    by (rule runScheduled_stale)
  then show ?thesis using Some by (simp add: step_def)
qed

lemma emptySlot_scroll:
  "scrollTop (emptySlot sl s) = scrollTop s"
  "scrollLeft (emptySlot sl s) = scrollLeft s"
  "effects (emptySlot sl s) = effects s"
  "ops (emptySlot sl s) = ops s"
  "operationRef (emptySlot sl s) = operationRef s"
  by (cases sl; simp add: emptySlot_def)+

text \<open>
  C10, as stated, fails in one detail: the accumulator is zeroed together with the
  cancellation of the callback, and only then. A residue that was absorbed without
  scheduling a callback is still in the record when it is discarded.
\<close>

theorem teardown_counterexample:
  "operationRef residueController = Some 1
   \<and> pendingAnchorDelta (ops (clearOperation hostOffset (Some Cancelled) residueController) 1) \<noteq> 0"
  by (simp add: clearOperation_active residueController_def convergingController_def
      convergingOperation_def)

text \<open>
  C10 (amended). Tearing the active operation down through \<open>clearOperation\<close>, for
  whatever reason, leaves no operation active, leaves the scroll position as it was
  and issues no scroll command. The record it discards has no anchor handle; if it had
  one, both anchor slots are empty and the accumulator is zero, and if it had none the
  accumulator is left as it was. Whatever callback the host fires afterwards, the
  scroll position and the commands issued stay the same and no record changes: the
  compensation that was not committed is never applied.
\<close>

theorem clearOperation_discards_anchor:
  assumes "operationRef s = Some a"
  shows "operationRef (clearOperation e reason s) = None
       \<and> scrollTop (clearOperation e reason s) = scrollTop s
       \<and> scrollLeft (clearOperation e reason s) = scrollLeft s
       \<and> scrollCommands (clearOperation e reason s) = scrollCommands s
       \<and> anchorFrameId (ops (clearOperation e reason s) a) = None
       \<and> (anchorFrameId (ops s a) \<noteq> None \<longrightarrow>
            anchorFrame (clearOperation e reason s) = None
          \<and> anchorTimer (clearOperation e reason s) = None
          \<and> pendingAnchorDelta (ops (clearOperation e reason s) a) = 0)
       \<and> (anchorFrameId (ops s a) = None \<longrightarrow>
            pendingAnchorDelta (ops (clearOperation e reason s) a) = pendingAnchorDelta (ops s a))
       \<and> (\<forall>n e' sl. \<exists>s'. step n e' (Fire sl) (clearOperation e reason s) = Some s'
             \<and> scrollTop s' = scrollTop s \<and> scrollLeft s' = scrollLeft s
             \<and> scrollCommands s' = scrollCommands s \<and> ops s' = ops (clearOperation e reason s))"
proof -
  let ?t = "clearOperation e reason s"
  note co = clearOperation_active [OF assms, of e reason]
  have sc: "scrollCommands ?t = scrollCommands s"
    by (cases reason) (simp_all add: clearOperation_active [OF assms] filters)
  have fire: "\<exists>s'. step n e' (Fire sl) ?t = Some s'
             \<and> scrollTop s' = scrollTop s \<and> scrollLeft s' = scrollLeft s
             \<and> scrollCommands s' = scrollCommands s \<and> ops s' = ops ?t" for n e' sl
    using step_Fire_inactive [OF co(1), of n e' sl] sc
    by (auto simp: co(2,3) emptySlot_scroll scrollCommands_def)
  show ?thesis
    using sc fire by (simp add: co)
qed

theorem clearOperation_discards_anchor_witness:
  "operationRef residueController = Some 1
   \<and> scrollTop (clearOperation hostOffset (Some User) residueController) = 400
   \<and> scrollCommands (clearOperation hostOffset (Some User) residueController) = []
   \<and> operationRef (clearOperation hostOffset (Some User) residueController) = None
   \<and> anchorFrameId (ops residueController 1) = None
   \<and> pendingAnchorDelta (ops (clearOperation hostOffset (Some User) residueController) 1) = 1 / 10"
proof -
  have a: "operationRef residueController = Some 1"
    by (simp add: residueController_def convergingController_def)
  show ?thesis
    using clearOperation_discards_anchor [OF a, of hostOffset "Some User"] a
    by (simp add: residueController_def convergingController_def convergingOperation_def
        scrollCommands_def)
qed

subsection \<open>The pin\<close>

lemma releasePin_pinned:
  assumes "isPinned (ops s r)"
  shows "operationRef (releasePin e r s) = None"
    and "effects (releasePin e r s) =
           effects s
           @ (if scrollListenerRef s \<and> scrollViewRect e \<noteq> None then [RemoveScrollListener] else [])
           @ (if setFlaggedIndex e then [SetFlaggedIndex None] else [])
           @ (if onPinReleased e then [OnPinReleased (targetIndex (ops s r))] else [])"
    and "ops (releasePin e r s) =
           (ops s)(r := (ops s r)\<lparr>isPinned := False, pinTimeoutId := None\<rparr>)"
    and "scrollListenerRef (releasePin e r s) = False"
    and "pinTimer (releasePin e r s) = (if pinTimeoutId (ops s r) = None then pinTimer s else None)"
    and "stabilityTimer (releasePin e r s) = stabilityTimer s"
    and "correctionFrame (releasePin e r s) = correctionFrame s"
    and "anchorFrame (releasePin e r s) = anchorFrame s"
    and "anchorTimer (releasePin e r s) = anchorTimer s"
    and "scrollTop (releasePin e r s) = scrollTop s"
    and "scrollLeft (releasePin e r s) = scrollLeft s"
  using assms by (simp_all add: releasePin_def Let_def fields fun_eq_iff)

lemma handleItemMeasured_stable:
  assumes "operationRef s = Some a" and "status (ops s a) = Stable"
  shows "handleItemMeasured n e index size' delta s =
           Some (if maintainPosition (ops s a) \<and> index < targetIndex (ops s a) \<and> delta \<noteq> 0
                 then applyScrollByDelta e a delta s else s)"
  using assms by (simp add: handleItemMeasured_def)

text \<open>
  C5, as stated, fails: the adjustment is not unconditional. While
  \<open>scrollViewRef.current\<close> is null \<open>applyScrollByDelta\<close> returns at once, and a
  measurement of 120 units above the target of a stable, pinned operation changes
  nothing.
\<close>

theorem pinned_compensation_counterexample:
  "operationRef pinnedController = Some 1
   \<and> status (ops pinnedController 1) = Stable
   \<and> maintainPosition (ops pinnedController 1)
   \<and> 3 < targetIndex (ops pinnedController 1)
   \<and> handleItemMeasured 1 hostDetached 3 300 120 pinnedController = Some pinnedController"
  by (simp add: handleItemMeasured_def applyScrollByDelta_def pinnedController_def
      pinnedOperation_def hostDetached_def)

text \<open>
  C5 (amended). When the active operation is stable with \<open>maintainPosition\<close> enabled
  and the scroll container is present, \<open>handleItemMeasured\<close> with an index strictly
  below the target and a nonzero delta returns at once with exactly one scroll
  command issued: the delta, negated when the direction is reversed, added to
  \<open>scrollTop\<close> (vertical axis) or \<open>scrollLeft\<close> (horizontal axis). The record changes in
  its programmatic-scroll flag only, so the accumulator, the anchor handle and the
  correction budget are untouched, and neither the anchor slots nor the correction and
  stability slots change.
\<close>

theorem pinned_compensation_is_direct:
  assumes "operationRef s = Some a" and "status (ops s a) = Stable"
    and "maintainPosition (ops s a)" and "index < targetIndex (ops s a)" and "delta \<noteq> 0"
    and "scrollViewRect e \<noteq> None"
  shows "\<exists>s'. handleItemMeasured n e index size' delta s = Some s'
       \<and> effects s' =
           effects s @ [if axis e = Vertical
                        then ScrollTopAdd (if reversed e then - delta else delta)
                        else ScrollLeftAdd (if reversed e then - delta else delta)]
       \<and> scrollTop s' =
           (if axis e = Vertical then scrollTop s + (if reversed e then - delta else delta)
            else scrollTop s)
       \<and> scrollLeft s' =
           (if axis e = Vertical then scrollLeft s
            else scrollLeft s + (if reversed e then - delta else delta))
       \<and> ops s' = (ops s)(a := (ops s a)\<lparr>isProgrammaticScroll := True\<rparr>)
       \<and> anchorFrame s' = anchorFrame s \<and> anchorTimer s' = anchorTimer s
       \<and> correctionFrame s' = correctionFrame s \<and> stabilityTimer s' = stabilityTimer s"
  using assms by (simp add: handleItemMeasured_stable fields)

theorem pinned_compensation_is_direct_witness:
  "operationRef pinnedController = Some 1 \<and> status (ops pinnedController 1) = Stable
   \<and> maintainPosition (ops pinnedController 1) \<and> 3 < targetIndex (ops pinnedController 1)
   \<and> scrollViewRect hostOffset \<noteq> None
   \<and> (\<exists>s'. handleItemMeasured 1 hostOffset 3 300 120 pinnedController = Some s'
         \<and> effects s' = [ScrollTopAdd 120] \<and> scrollTop s' = 520
         \<and> pendingAnchorDelta (ops s' 1) = 0 \<and> anchorFrame s' = None)"
proof -
  have h: "operationRef pinnedController = Some 1" "status (ops pinnedController 1) = Stable"
    "maintainPosition (ops pinnedController 1)" "3 < targetIndex (ops pinnedController 1)"
    "(120::real) \<noteq> 0" "scrollViewRect hostOffset \<noteq> None"
    by (simp_all add: pinnedController_def pinnedOperation_def hostOffset_def)
  show ?thesis
    using pinned_compensation_is_direct [OF h, of 1 300] h
    by (auto simp: pinnedController_def pinnedOperation_def hostOffset_def)
qed

text \<open>
  C6, as stated, fails: \<open>cancel()\<close> on a pinned operation reports the cancellation
  callback and no pin-release notification.
\<close>

theorem pin_release_counterexample:
  "isPinned (ops pinnedController 1)
   \<and> operationRef pinnedController = Some 1
   \<and> effects (cancel hostOffset pinnedController) =
       [RemoveScrollListener, SetFlaggedIndex None, OnOperationCancel 5 Cancelled]"
  by (simp add: cancel_def clearOperation_active pinnedController_def pinnedOperation_def
      hostOffset_def)

text \<open>
  C6 (amended). Each release condition of a pinned, active operation tears the pin
  down (the pinned flag and the pin handle are reset, the scroll listener reference is
  dropped) and leaves no operation active. What is reported differs: the pin-expiry
  timer reports \<open>onPinReleased(targetIndex)\<close>, which carries no reason, and no
  cancellation; \<open>cancel()\<close> reports \<open>onOperationCancel(targetIndex, cancelled)\<close> and a
  scroll event that is not flagged as programmatic reports
  \<open>onOperationCancel(targetIndex, user)\<close>, both without any pin-release notification.
\<close>

theorem pin_release_paths:
  assumes "operationRef s = Some a" and "isPinned (ops s a)"
  shows "(op_id (ops s a) = k \<longrightarrow>
            operationRef (pinExpired e k s) = None
          \<and> \<not> isPinned (ops (pinExpired e k s) a)
          \<and> pinTimeoutId (ops (pinExpired e k s) a) = None
          \<and> \<not> scrollListenerRef (pinExpired e k s)
          \<and> pinReleases (pinExpired e k s) =
              pinReleases s @ (if onPinReleased e then [OnPinReleased (targetIndex (ops s a))] else [])
          \<and> cancellations (pinExpired e k s) = cancellations s)
       \<and> (operationRef (cancel e s) = None
          \<and> \<not> isPinned (ops (cancel e s) a)
          \<and> pinTimeoutId (ops (cancel e s) a) = None
          \<and> \<not> scrollListenerRef (cancel e s)
          \<and> pinReleases (cancel e s) = pinReleases s
          \<and> cancellations (cancel e s) =
              cancellations s
              @ (if onOperationCancel e
                 then [OnOperationCancel (targetIndex (ops s a)) Cancelled] else []))
       \<and> (\<not> isProgrammaticScroll (ops s a) \<longrightarrow>
            operationRef (scrollListener e s) = None
          \<and> \<not> isPinned (ops (scrollListener e s) a)
          \<and> pinTimeoutId (ops (scrollListener e s) a) = None
          \<and> \<not> scrollListenerRef (scrollListener e s)
          \<and> pinReleases (scrollListener e s) = pinReleases s
          \<and> cancellations (scrollListener e s) =
              cancellations s
              @ (if onOperationCancel e
                 then [OnOperationCancel (targetIndex (ops s a)) User] else []))"
  using assms
  by (simp add: pinExpired_def cancel_def scrollListener_def releasePin_pinned
      clearOperation_active filters)

theorem pin_release_paths_witness:
  "operationRef pinnedController = Some 1 \<and> isPinned (ops pinnedController 1)
   \<and> op_id (ops pinnedController 1) = 1
   \<and> \<not> isProgrammaticScroll (ops pinnedController 1)
   \<and> operationRef (pinExpired hostOffset 1 pinnedController) = None
   \<and> pinReleases (pinExpired hostOffset 1 pinnedController) = [OnPinReleased 5]
   \<and> cancellations (pinExpired hostOffset 1 pinnedController) = []
   \<and> pinReleases (cancel hostOffset pinnedController) = []
   \<and> cancellations (cancel hostOffset pinnedController) = [OnOperationCancel 5 Cancelled]
   \<and> pinReleases (scrollListener hostOffset pinnedController) = []
   \<and> cancellations (scrollListener hostOffset pinnedController) = [OnOperationCancel 5 User]"
proof -
  have h: "operationRef pinnedController = Some 1" "isPinned (ops pinnedController 1)"
    by (simp_all add: pinnedController_def pinnedOperation_def)
  show ?thesis
    using pin_release_paths [OF h, of 1 hostOffset] h
    by (simp add: pinnedController_def pinnedOperation_def hostOffset_def filters)
qed

subsection \<open>Every step stays within advances\<close>

lemma advances_refl: "advances r s s"
  by (simp add: advances_def)

lemma advances_trans: "advances r s x \<Longrightarrow> advances r x y \<Longrightarrow> advances r s y"
  unfolding advances_def
  apply (intro conjI)
            apply simp
           apply auto[1]
          apply simp
         apply simp
        apply metis
       apply simp
      apply (metis (no_types, lifting) le_add1 order.trans)
     apply (metis (no_types, lifting) le_add1 order.trans)
    apply metis
   apply simp
  apply simp
  done

lemma actsOn_advances: "advances r s x \<Longrightarrow> actsOn r s \<Longrightarrow> actsOn r x"
  by (auto simp: advances_def actsOn_def)

lemmas advances_unfold = advances_def countOf_def cancellations_def
  isOperationCallback_def isOnOperationComplete_def isCancellation_def

lemma adv_modify:
  "advances r s x \<Longrightarrow> status (f (ops x r)) = status (ops x r) \<Longrightarrow>
   correctionsRemaining (f (ops x r)) \<le> correctionsRemaining (ops x r) \<Longrightarrow>
   op_id (f (ops x r)) = op_id (ops x r) \<Longrightarrow> advances r s (modify r f x)"
  by (rule advances_trans [where x = x]) (simp_all add: advances_unfold fields)

lemma adv_prims:
  "advances r s x \<Longrightarrow> advances r s (clearStabilityTimeout r x)"
  "advances r s x \<Longrightarrow> advances r s (clearPinTimeout r x)"
  "advances r s x \<Longrightarrow> advances r s (cancelScheduledFrame r x)"
  "advances r s x \<Longrightarrow> advances r s (cancelAnchorFrame r x)"
  "advances r s x \<Longrightarrow> advances r s (detachScrollListener e x)"
  "advances r s x \<Longrightarrow> advances r s (callSetFlaggedIndex e i x)"
  "advances r s x \<Longrightarrow> advances r s (callOnPinReleased e j x)"
  "advances r s x \<Longrightarrow> advances r s (ensureScrollListener e x)"
  "advances r s x \<Longrightarrow> advances r s (scheduleProgrammaticScrollReset r' x)"
  "advances r s x \<Longrightarrow> advances r s (applyScrollByDelta e r d x)"
  "advances r s x \<Longrightarrow> advances r s (emit ConsoleWarn x)"
  "advances r s x \<Longrightarrow> advances r s (x\<lparr>operationRef := None\<rparr>)"
  "advances r s x \<Longrightarrow> advances r s (x\<lparr>stabilityTimer := a\<rparr>)"
  "advances r s x \<Longrightarrow> advances r s (x\<lparr>pinTimer := a\<rparr>)"
  "advances r s x \<Longrightarrow> advances r s (x\<lparr>anchorTimer := a\<rparr>)"
  "advances r s x \<Longrightarrow> advances r s (x\<lparr>correctionFrame := a\<rparr>)"
  "advances r s x \<Longrightarrow> advances r s (x\<lparr>anchorFrame := a\<rparr>)"
  "advances r s x \<Longrightarrow> advances r s (x\<lparr>programmaticFrame := a\<rparr>)"
  "advances r s x \<Longrightarrow> advances r s (x\<lparr>nextHandle := h\<rparr>)"
  by (erule advances_trans, simp add: advances_unfold fields)+

lemma adv_performScroll: "advances r s x \<Longrightarrow> advances r s (performScroll e r b x)"
  by (erule advances_trans)
     (simp add: performScroll_def Let_def advances_unfold fields split: option.splits)

lemmas adv_simps = adv_prims adv_modify adv_performScroll

lemma adv_clearOperation:
  "operationRef x = Some r \<Longrightarrow> advances r s x \<Longrightarrow> advances r s (clearOperation e None x)"
  by (simp add: clearOperation_def Let_def adv_simps)

lemma adv_releasePin: "advances r s x \<Longrightarrow> advances r s (releasePin e r x)"
  by (simp add: releasePin_def Let_def adv_simps)

lemma adv_startPin: "advances r s x \<Longrightarrow> advances r s (startPin e r x)"
  by (simp add: startPin_def Let_def adv_simps)

lemma adv_pinExpired: "actsOn r x \<Longrightarrow> advances r s x \<Longrightarrow> advances r s (pinExpired e k x)"
  by (auto simp: actsOn_def pinExpired_def adv_releasePin split: option.splits)

lemma adv_programmaticScrollReset:
  "actsOn r x \<Longrightarrow> advances r s x \<Longrightarrow> advances r s (programmaticScrollReset k x)"
  by (auto simp: actsOn_def programmaticScrollReset_def adv_modify split: option.splits)

lemma adv_finalize_core:
  "status (ops x r) \<noteq> Stable \<Longrightarrow>
   advances r x
     (callOnOperationComplete e r (callOperationCallback r (cancelScheduledFrame r
        (clearStabilityTimeout r (modify r (\<lambda>operation. operation\<lparr>status := Stable\<rparr>) x)))))"
  by (simp add: advances_unfold fields)

lemma adv_finalizeOperation: "advances r s x \<Longrightarrow> advances r s (finalizeOperation e r x)"
proof (cases "status (ops x r) = Stable")
  case True
  assume "advances r s x"
  with True show ?thesis by (simp add: finalizeOperation_def)
next
  case False
  assume a: "advances r s x"
  have "advances r s
     (callOnOperationComplete e r (callOperationCallback r (cancelScheduledFrame r
        (clearStabilityTimeout r (modify r (\<lambda>operation. operation\<lparr>status := Stable\<rparr>) x)))))"
    by (rule advances_trans [OF a adv_finalize_core [OF False]])
  then show ?thesis
    using False by (simp add: finalizeOperation_def Let_def adv_simps adv_startPin)
qed

lemma advancesO_simps [simp]:
  "advancesO r s None" "advancesO r s (Some x) = advances r s x"
  by (simp_all add: advancesO_def)

lemma advO_case:
  "advancesO r s m \<Longrightarrow> (\<And>y. m = Some y \<Longrightarrow> advances r s y \<Longrightarrow> advancesO r s (g y)) \<Longrightarrow>
   advancesO r s (case m of None \<Rightarrow> None | Some y \<Rightarrow> g y)"
  by (cases m) simp_all

lemma advO_bind:
  "advancesO r s m \<Longrightarrow> (\<And>y. m = Some y \<Longrightarrow> advances r s y \<Longrightarrow> advancesO r s (g y)) \<Longrightarrow>
   advancesO r s (Option.bind m g)"
  by (cases m) simp_all

lemma adv_if:
  "(c \<Longrightarrow> advances r s A) \<Longrightarrow> (\<not> c \<Longrightarrow> advances r s B) \<Longrightarrow> advances r s (if c then A else B)"
  by simp

lemma advO_if:
  "(c \<Longrightarrow> advancesO r s A) \<Longrightarrow> (\<not> c \<Longrightarrow> advancesO r s B) \<Longrightarrow>
   advancesO r s (if c then A else B)"
  by simp

lemma advO_Some: "advances r s x \<Longrightarrow> advancesO r s (Some x)"
  by simp

lemma advO_None: "advancesO r s None"
  by simp

lemma advO_trans: "advances r s x \<Longrightarrow> advancesO r x m \<Longrightarrow> advancesO r s m"
  by (cases m) (auto intro: advances_trans)

lemma okAt_sc:
  assumes "okAt n" and "actsOn r s" and "advances r s x"
  shows "advancesO r s (scheduleCorrection n e r x)"
proof -
  have "actsOn r x" using assms(2,3) by (simp add: actsOn_advances)
  then have "advancesO r x (scheduleCorrection n e r x)"
    using assms(1) by (simp add: okAt_def)
  then show ?thesis by (rule advO_trans [OF assms(3)])
qed

lemma okAt_ssc:
  assumes "okAt n" and "actsOn r s" and "advances r s x"
  shows "advancesO r s (scheduleStabilityCheck n e r x)"
proof -
  have "actsOn r x" using assms(2,3) by (simp add: actsOn_advances)
  then have "advancesO r x (scheduleStabilityCheck n e r x)"
    using assms(1) by (simp add: okAt_def)
  then show ?thesis by (rule advO_trans [OF assms(3)])
qed

lemmas adv_intros = adv_if advO_if advO_Some advO_None advO_case advO_bind
  adv_prims adv_performScroll adv_finalizeOperation adv_modify

lemma adv_runCheck:
  assumes ok: "okAt n" and act: "actsOn r s" and a: "advances r s x"
  shows "advancesO r s (runCheck (scheduleCorrection n) (scheduleStabilityCheck n) e k x)"
proof (cases "operationRef x")
  case None
  then show ?thesis using a by (simp add: runCheck_def)
next
  case (Some active)
  with actsOn_advances [OF a act] have [simp]: "active = r" by (simp add: actsOn_def)
  show ?thesis
    unfolding runCheck_def Let_def Some option.case
    apply (simp only: \<open>active = r\<close>)
    apply (intro adv_intros okAt_sc [OF ok act] okAt_ssc [OF ok act] a)
                        apply simp_all
    done
qed

lemma adv_executeCorrection:
  assumes ok: "okAt n" and act: "actsOn r s" and a: "advances r s x"
  shows "advancesO r s (executeCorrection (scheduleCorrection n) (scheduleStabilityCheck n) e k x)"
proof (cases "operationRef x")
  case None
  then show ?thesis using a by (simp add: executeCorrection_def)
next
  case (Some active)
  with actsOn_advances [OF a act] have [simp]: "active = r" by (simp add: actsOn_def)
  show ?thesis
    unfolding executeCorrection_def Let_def Some option.case
    apply (simp only: \<open>active = r\<close>)
    apply (intro adv_intros okAt_sc [OF ok act] okAt_ssc [OF ok act] a)
                        apply simp_all
    done
qed

lemma adv_scheduleStabilityCheckRef:
  assumes ok: "okAt n" and act: "actsOn r s" and a: "advances r s x"
  shows "advancesO r s
           (scheduleStabilityCheckRef (scheduleCorrection n) (scheduleStabilityCheck n) e r x)"
  unfolding scheduleStabilityCheckRef_def Let_def
  apply (intro adv_intros adv_runCheck [OF ok act] a)
     apply simp_all
  done

lemma adv_scheduleCorrectionRef:
  assumes ok: "okAt n" and act: "actsOn r s" and a: "advances r s x"
  shows "advancesO r s
           (scheduleCorrectionRef (scheduleCorrection n) (scheduleStabilityCheck n) e r x)"
  unfolding scheduleCorrectionRef_def Let_def
  apply (intro adv_intros adv_executeCorrection [OF ok act] a)
     apply simp_all
  done

lemma okAt_all: "okAt n"
proof (induction n)
  case 0
  show ?case by (simp add: okAt_def scheduleCorrection_def scheduleStabilityCheck_def)
next
  case (Suc n)
  have sc: "scheduleCorrection (Suc n) =
      scheduleCorrectionRef (scheduleCorrection n) (scheduleStabilityCheck n)"
    and ssc: "scheduleStabilityCheck (Suc n) =
      scheduleStabilityCheckRef (scheduleCorrection n) (scheduleStabilityCheck n)"
    by (simp_all add: scheduleCorrection_def scheduleStabilityCheck_def)
  show ?case
    unfolding okAt_def sc ssc
    by (blast intro: adv_scheduleCorrectionRef [OF Suc] adv_scheduleStabilityCheckRef [OF Suc]
        advances_refl)
qed

lemmas okSc = okAt_sc [OF okAt_all]
lemmas okSsc = okAt_ssc [OF okAt_all]

lemma adv_scheduleAnchorAdjustment:
  assumes act: "actsOn r s" and a: "advances r s x"
  shows "advancesO r s (scheduleAnchorAdjustment n e r d x)"
  unfolding scheduleAnchorAdjustment_def Let_def
  apply (intro adv_intros okSsc [OF act] a)
                      apply simp_all
  done

lemma adv_commitAnchor:
  assumes act: "actsOn r s" and a: "advances r s x"
  shows "advancesO r s (commitAnchor n e k x)"
proof (cases "operationRef x")
  case None
  then show ?thesis using a by (simp add: commitAnchor_def)
next
  case (Some active)
  with actsOn_advances [OF a act] have [simp]: "active = r" by (simp add: actsOn_def)
  show ?thesis
    unfolding commitAnchor_def Let_def Some option.case
    apply (simp only: \<open>active = r\<close>)
    apply (intro adv_intros okSsc [OF act] adv_scheduleAnchorAdjustment [OF act] a)
           apply simp_all
    done
qed

lemma adv_handleItemMeasured:
  assumes act: "actsOn r s"
  shows "advancesO r s (handleItemMeasured n e index size' delta s)"
proof (cases "operationRef s")
  case None
  then show ?thesis by (simp add: handleItemMeasured_def advances_refl)
next
  case (Some active)
  with act have [simp]: "active = r" by (simp add: actsOn_def)
  show ?thesis
    unfolding handleItemMeasured_def Let_def Some option.case
    apply (simp only: \<open>active = r\<close>)
    apply (intro adv_intros okSsc [OF act] okSc [OF act] adv_scheduleAnchorAdjustment [OF act]
        advances_refl)
                        apply simp_all
    done
qed

lemma adv_handleRendered:
  assumes act: "actsOn r s"
  shows "advancesO r s (map_option snd (handleRendered n e index s))"
proof (cases "operationRef s")
  case None
  then show ?thesis by (simp add: handleRendered_def advances_refl)
next
  case (Some active)
  with act have [simp]: "active = r" by (simp add: actsOn_def)
  have sc: "advancesO r s (scheduleCorrection n e r s)"
    by (rule okSc [OF act advances_refl])
  show ?thesis
  proof (cases "scheduleCorrection n e r s")
    case None
    then show ?thesis using Some by (simp add: handleRendered_def advances_refl)
  next
    case (Some s1)
    with sc have a1: "advances r s s1" by simp
    have "advancesO r s (scheduleStabilityCheck n e r s1)"
      by (rule okSsc [OF act a1])
    then show ?thesis
      using Some \<open>operationRef s = Some active\<close>
      by (cases "scheduleStabilityCheck n e r s1")
         (simp_all add: handleRendered_def advances_refl)
  qed
qed

lemma adv_runScheduled:
  assumes act: "actsOn r s" and a: "advances r s x"
  shows "advancesO r s (runScheduled n e c x)"
  by (cases c)
     (simp_all add: runScheduled_def adv_programmaticScrollReset adv_pinExpired
        adv_commitAnchor adv_runCheck adv_executeCorrection okAt_all
        actsOn_advances [OF a act] act a)

lemma actsOn_activeAddr: "actsOn (activeAddr s) s"
  by (simp add: actsOn_def activeAddr_def split: option.splits)

lemma adv_emptySlot: "advances r s (emptySlot sl s)"
  by (cases sl) (simp_all add: emptySlot_def adv_prims advances_refl)

lemma adv_step:
  assumes "\<forall>i b cb. ev \<noteq> Start i b cb" and "ev \<noteq> Cancel" and "ev \<noteq> ScrollEvent"
  shows "advancesO (activeAddr s) s (step n e ev s)"
proof (cases ev)
  case (HandleItemMeasured i sz d)
  then show ?thesis
    by (simp add: step_def adv_handleItemMeasured actsOn_activeAddr)
next
  case (HandleRendered i)
  then show ?thesis
    by (simp add: step_def adv_handleRendered actsOn_activeAddr)
next
  case Unmount
  show ?thesis
  proof (cases "operationRef s")
    case None
    then show ?thesis
      using Unmount by (simp add: step_def unmount_def clearOperation_def advances_refl)
  next
    case (Some a)
    then show ?thesis
      using Unmount
      by (simp add: step_def unmount_def adv_clearOperation advances_refl activeAddr_def)
  qed
next
  case (Fire sl)
  then show ?thesis
    by (cases "slotContent sl s")
       (simp_all add: step_def advances_refl adv_runScheduled actsOn_activeAddr adv_emptySlot)
qed (use assms in simp_all)


subsection \<open>At most one completion\<close>

lemma finalizedOnce_advances:
  assumes "finalizedOnce s" and "advances r s s'" and "r \<le> operationIdRef s"
  shows "finalizedOnce s'"
proof -
  have ref: "\<forall>a. operationRef s' = Some a \<longrightarrow> a \<le> operationIdRef s'"
    using assms(1,2) by (auto simp: finalizedOnce_def advances_def)
  have "countOf (isOperationCallback k) s' \<le> 1
      \<and> countOf (isOnOperationComplete k) s' \<le> 1
      \<and> (countOf (isOperationCallback k) s' \<noteq> 0 \<or> countOf (isOnOperationComplete k) s' \<noteq> 0
          \<longrightarrow> status (ops s' k) = Stable \<and> k \<le> operationIdRef s')" for k
  proof (cases "k \<noteq> r \<or> status (ops s r) = Stable")
    case True
    then have same: "countOf (isOperationCallback k) s' = countOf (isOperationCallback k) s"
      "countOf (isOnOperationComplete k) s' = countOf (isOnOperationComplete k) s"
      using assms(2) by (simp_all add: advances_def)
    have st: "status (ops s k) = Stable \<Longrightarrow> status (ops s' k) = Stable"
      using assms(2) by (cases "k = r") (simp_all add: advances_def)
    have "operationIdRef s' = operationIdRef s" using assms(2) by (simp add: advances_def)
    then show ?thesis
      using assms(1) same st unfolding finalizedOnce_def by metis
  next
    case False
    then have k: "k = r" and ns: "status (ops s r) \<noteq> Stable" by simp_all
    then have zero: "countOf (isOperationCallback r) s = 0" "countOf (isOnOperationComplete r) s = 0"
      using assms(1) unfolding finalizedOnce_def by metis+
    have "operationIdRef s' = operationIdRef s" using assms(2) by (simp add: advances_def)
    then show ?thesis
      using assms(2,3) zero unfolding advances_def k by simp
  qed
  then show ?thesis
    using ref unfolding finalizedOnce_def by blast
qed

lemma activeAddr_allocated: "finalizedOnce s \<Longrightarrow> activeAddr s \<le> operationIdRef s"
  by (simp add: finalizedOnce_def activeAddr_def split: option.splits)

lemma clearOperation_reason:
  "clearOperation e (Some why) s =
     (case operationRef s of
        None \<Rightarrow> s
      | Some a \<Rightarrow>
          if onOperationCancel e
          then emit (OnOperationCancel (targetIndex (ops (clearOperation e None s) a)) why)
                 (clearOperation e None s)
          else clearOperation e None s)"
  by (simp add: clearOperation_def Let_def split: option.splits)

lemma finalizedOnce_emit_cancel:
  "finalizedOnce (emit (OnOperationCancel i why) s) = finalizedOnce s"
  by (simp add: finalizedOnce_def countOf_def isOperationCallback_def isOnOperationComplete_def
      fields)

lemma finalizedOnce_clearOperation:
  assumes "finalizedOnce s"
  shows "finalizedOnce (clearOperation e reason s)"
proof (cases "operationRef s")
  case None
  then show ?thesis using assms by (simp add: clearOperation_def)
next
  case (Some a)
  then have "a \<le> operationIdRef s" using assms by (simp add: finalizedOnce_def)
  then have n: "finalizedOnce (clearOperation e None s)"
    using finalizedOnce_advances [OF assms adv_clearOperation [OF Some advances_refl]] by simp
  show ?thesis
  proof (cases reason)
    case None
    then show ?thesis using n by simp
  next
    case (Some why)
    then show ?thesis
      using n \<open>operationRef s = Some a\<close>
      by (simp add: clearOperation_reason finalizedOnce_emit_cancel)
  qed
qed

lemma start_props:
  assumes st: "start n e index bhv cb s = Some s'"
  shows "\<exists>s2 s4. advances (activeAddr s) s s2
           \<and> operationRef s2 = None
           \<and> (\<forall>old. operationRef s = Some old \<longrightarrow>
                 stabilityTimeoutId (ops s2 old) = None \<and> pinTimeoutId (ops s2 old) = None
               \<and> scheduleFrameId (ops s2 old) = None \<and> anchorFrameId (ops s2 old) = None
               \<and> \<not> isPinned (ops s2 old))
           \<and> operationIdRef s4 = operationIdRef s2 + 1
           \<and> effects s4 = effects s2
           \<and> (\<forall>k. k \<noteq> operationIdRef s2 + 1 \<longrightarrow> ops s4 k = ops s2 k)
           \<and> status (ops s4 (operationIdRef s2 + 1)) = Initial
           \<and> operationRef s4 = Some (operationIdRef s2 + 1)
           \<and> advances (operationIdRef s2 + 1) s4 s'"
proof -
  define s1 where "s1 = (case operationRef s of Some old \<Rightarrow> cancelScheduledFrame old s | None \<Rightarrow> s)"
  define s2 where "s2 = clearOperation e None s1"
  define new where "new = operationIdRef s2 + 1"
  define operation where "operation =
            \<lparr>op_id = new, targetIndex = index, behavior = bhv, callback = cb,
             correctionsRemaining = maxCorrections e, pendingCorrection = False,
             stabilityTimeoutId = None, pinTimeoutId = None, scheduleFrameId = None,
             status = Initial, maintainPosition = maintainPositionParam e, isPinned = False,
             isProgrammaticScroll = False, lastMeasurementTimestamp = now e,
             hasMeasuredTarget = False, stableIterations = DEFAULT_CORRECTION_SETTLE,
             pendingAnchorDelta = 0, anchorFrameId = None, initialAlignmentPerformed = False\<rparr>"
  define s4 where "s4 = s2\<lparr>operationIdRef := new, ops := (ops s2)(new := operation),
                            operationRef := Some new\<rparr>"
  define s7 where "s7 = performScroll e new bhv
                          (ensureScrollListener e (callSetFlaggedIndex e (Some index) s4))"
  have eq: "start n e index bhv cb s =
              Option.bind (scheduleCorrection n e new s7) (scheduleStabilityCheck n e new)"
    by (simp add: start_def Let_def s1_def s2_def new_def operation_def s4_def s7_def)
  have a12: "advances (activeAddr s) s s2 \<and> operationRef s2 = None
           \<and> (\<forall>old. operationRef s = Some old \<longrightarrow>
                 stabilityTimeoutId (ops s2 old) = None \<and> pinTimeoutId (ops s2 old) = None
               \<and> scheduleFrameId (ops s2 old) = None \<and> anchorFrameId (ops s2 old) = None
               \<and> \<not> isPinned (ops s2 old))"
  proof (cases "operationRef s")
    case None
    then show ?thesis by (simp add: s1_def s2_def clearOperation_def advances_refl)
  next
    case (Some old)
    then have r1: "operationRef s1 = Some old" by (simp add: s1_def fields)
    have "advances old s s1" using Some by (simp add: s1_def adv_prims advances_refl)
    then have "advances old s s2" unfolding s2_def by (rule adv_clearOperation [OF r1])
    then show ?thesis
      using Some by (simp add: activeAddr_def s2_def clearOperation_active [OF r1])
  qed
  have act4: "actsOn new s4" by (simp add: actsOn_def s4_def)
  have a47: "advances new s4 s7"
    by (simp add: s7_def adv_prims adv_performScroll advances_refl)
  have "advancesO new s4 (start n e index bhv cb s)"
    unfolding eq by (intro advO_bind okSc [OF act4] okSsc [OF act4] a47)
  then have "advances new s4 s'" using st by simp
  then show ?thesis
    using a12 unfolding new_def
    by (intro exI [of _ s2] exI [of _ s4]) (simp add: s4_def operation_def new_def)
qed

lemma finalizedOnce_start:
  assumes "finalizedOnce s" and "start n e index bhv cb s = Some s'"
  shows "finalizedOnce s'"
proof -
  from start_props [OF assms(2)] obtain s2 s4 where
    a: "advances (activeAddr s) s s2" and r2: "operationRef s2 = None"
    and id4: "operationIdRef s4 = operationIdRef s2 + 1" and e4: "effects s4 = effects s2"
    and o4: "\<forall>k. k \<noteq> operationIdRef s2 + 1 \<longrightarrow> ops s4 k = ops s2 k"
    and r4: "operationRef s4 = Some (operationIdRef s2 + 1)"
    and b: "advances (operationIdRef s2 + 1) s4 s'"
    by blast
  have f2: "finalizedOnce s2"
    by (rule finalizedOnce_advances [OF assms(1) a activeAddr_allocated [OF assms(1)]])
  have c: "countOf P s4 = countOf P s2" for P by (simp add: countOf_def e4)
  have f4: "finalizedOnce s4"
    unfolding finalizedOnce_def c id4 r4
  proof (intro conjI allI impI)
    fix a assume "Some (operationIdRef s2 + 1) = Some a"
    then show "a \<le> operationIdRef s2 + 1" by simp
  next
    fix k show "countOf (isOperationCallback k) s2 \<le> 1"
      using f2 by (simp add: finalizedOnce_def)
  next
    fix k show "countOf (isOnOperationComplete k) s2 \<le> 1"
      using f2 by (simp add: finalizedOnce_def)
  next
    fix k
    assume n: "countOf (isOperationCallback k) s2 \<noteq> 0 \<or> countOf (isOnOperationComplete k) s2 \<noteq> 0"
    then have k: "status (ops s2 k) = Stable \<and> k \<le> operationIdRef s2"
      using f2 unfolding finalizedOnce_def by blast
    then have "k \<noteq> operationIdRef s2 + 1" by simp
    then show "status (ops s4 k) = Stable" using o4 k by simp
    show "k \<le> operationIdRef s2 + 1" using k by simp
  qed
  show ?thesis
    by (rule finalizedOnce_advances [OF f4 b]) (simp add: id4)
qed

lemma finalizedOnce_step:
  assumes "finalizedOnce s" and "step n e ev s = Some s'"
  shows "finalizedOnce s'"
proof (cases "(\<exists>i b cb. ev = Start i b cb) \<or> ev = Cancel \<or> ev = ScrollEvent")
  case False
  then have "advancesO (activeAddr s) s (step n e ev s)" by (intro adv_step) auto
  then have "advances (activeAddr s) s s'" using assms(2) by simp
  then show ?thesis
    by (rule finalizedOnce_advances [OF assms(1) _ activeAddr_allocated [OF assms(1)]])
next
  case True
  then show ?thesis
    using assms
    by (auto simp: step_def cancel_def scrollListener_def finalizedOnce_clearOperation
        finalizedOnce_start split: option.splits if_splits)
qed

lemma finalizedOnce_run:
  "finalizedOnce s \<Longrightarrow> run n evs s = Some s' \<Longrightarrow> finalizedOnce s'"
proof (induction evs arbitrary: s)
  case Nil
  then show ?case by simp
next
  case (Cons x evs)
  obtain e ev where x: "x = (e, ev)" by (cases x)
  from Cons.prems(2) obtain s1 where s1: "step n e ev s = Some s1" and r: "run n evs s1 = Some s'"
    by (auto simp: x split: option.splits)
  show ?case
    by (rule Cons.IH [OF finalizedOnce_step [OF Cons.prems(1) s1] r])
qed

lemma finalizedOnce_initial: "finalizedOnce initialController"
  by (simp add: finalizedOnce_def initialController_def countOf_def)

lemma finalizeOperation_stable: "status (ops s r) = Stable \<Longrightarrow> finalizeOperation e r s = s"
  by (simp add: finalizeOperation_def)

lemma startPin_status: "status (ops (startPin e r s) k) = status (ops s k)"
  by (simp add: startPin_def Let_def fields)

lemma startPin_effects:
  "effects (startPin e r s) =
     effects s
     @ (if \<not> maintainPositionParam e \<or> isPinned (ops s r) \<or> scrollListenerRef s
           \<or> scrollViewRect e = None then [] else [AddScrollListener])"
  by (simp add: startPin_def Let_def fields)

lemma finalizeOperation_first:
  assumes "status (ops s r) \<noteq> Stable"
  shows "status (ops (finalizeOperation e r s) r) = Stable"
    and "effects (finalizeOperation e r s) =
           effects s
           @ (if callback (ops s r) then [OperationCallback r (targetIndex (ops s r))] else [])
           @ (if onOperationComplete e then [OnOperationComplete r (targetIndex (ops s r))] else [])
           @ (if setFlaggedIndex e then [SetFlaggedIndex None] else [])
           @ (if maintainPositionParam e
              then (if isPinned (ops s r) \<or> scrollListenerRef s \<or> scrollViewRect e = None
                    then [] else [AddScrollListener])
              else (if scrollListenerRef s \<and> scrollViewRect e \<noteq> None
                    then [RemoveScrollListener] else [])
                   @ (if onPinReleased e then [OnPinReleased (targetIndex (ops s r))] else []))"
  using assms
  by (simp_all add: finalizeOperation_def Let_def startPin_status startPin_effects fields)

text \<open>
  C7. \<open>finalizeOperation\<close> on a record that is already stable returns the state it
  was given: nothing changes and no callback is invoked. On a record that is not yet
  stable it sets the status to stable and invokes the completion callbacks with the
  target index, first the operation's own callback (if one was given to \<open>start\<close>),
  then \<open>onOperationComplete\<close> (if supplied), and nothing after them is a completion
  callback. Invoking it twice is the same as invoking it once. In every run of the
  controller from its initial state, whatever the host and the order of events, each
  completion callback is invoked at most once per operation.
\<close>

theorem finalizeOperation_once:
  "(status (ops s r) = Stable \<longrightarrow> finalizeOperation e r s = s)
   \<and> (status (ops s r) \<noteq> Stable \<longrightarrow>
        status (ops (finalizeOperation e r s) r) = Stable
      \<and> (\<exists>rest. effects (finalizeOperation e r s) =
             effects s
             @ (if callback (ops s r) then [OperationCallback r (targetIndex (ops s r))] else [])
             @ (if onOperationComplete e
                then [OnOperationComplete r (targetIndex (ops s r))] else [])
             @ rest
           \<and> (\<forall>x \<in> set rest. \<not> isOperationCallback r x \<and> \<not> isOnOperationComplete r x)))
   \<and> finalizeOperation e r (finalizeOperation e r s) = finalizeOperation e r s
   \<and> (\<forall>n evs s' k. run n evs initialController = Some s' \<longrightarrow>
         countOf (isOperationCallback k) s' \<le> 1 \<and> countOf (isOnOperationComplete k) s' \<le> 1)"
proof (intro conjI allI impI)
  assume "status (ops s r) = Stable"
  then show "finalizeOperation e r s = s" by (rule finalizeOperation_stable)
next
  assume "status (ops s r) \<noteq> Stable"
  then show "status (ops (finalizeOperation e r s) r) = Stable"
    by (rule finalizeOperation_first)
next
  assume ns: "status (ops s r) \<noteq> Stable"
  show "\<exists>rest. effects (finalizeOperation e r s) =
             effects s
             @ (if callback (ops s r) then [OperationCallback r (targetIndex (ops s r))] else [])
             @ (if onOperationComplete e
                then [OnOperationComplete r (targetIndex (ops s r))] else [])
             @ rest
           \<and> (\<forall>x \<in> set rest. \<not> isOperationCallback r x \<and> \<not> isOnOperationComplete r x)"
    unfolding finalizeOperation_first(2) [OF ns]
    by (intro exI conjI, rule refl)
       (auto simp: isOperationCallback_def isOnOperationComplete_def split: if_splits)
next
  show "finalizeOperation e r (finalizeOperation e r s) = finalizeOperation e r s"
  proof (cases "status (ops s r) = Stable")
    case True
    then show ?thesis by (simp add: finalizeOperation_stable)
  next
    case False
    then show ?thesis
      by (intro finalizeOperation_stable finalizeOperation_first(1))
  qed
next
  fix n evs s' k
  assume "run n evs initialController = Some s'"
  then have "finalizedOnce s'"
    by (rule finalizedOnce_run [OF finalizedOnce_initial])
  then show "countOf (isOperationCallback k) s' \<le> 1" "countOf (isOnOperationComplete k) s' \<le> 1"
    by (simp_all add: finalizedOnce_def)
qed

lemma completedRun_result:
  "map_option (\<lambda>s. (status (ops s 1), countOf (isOperationCallback 1) s,
                     countOf (isOnOperationComplete 1) s))
     (run 2 completedRun initialController) = Some (Stable, 1, 1)"
  by code_simp

theorem finalizeOperation_once_witness:
  "status (ops convergingController 1) \<noteq> Stable
   \<and> status (ops (finalizeOperation hostOffset 1 convergingController) 1) = Stable
   \<and> finalizeOperation hostOffset 1 (finalizeOperation hostOffset 1 convergingController)
       = finalizeOperation hostOffset 1 convergingController
   \<and> take 2 (effects (finalizeOperation hostOffset 1 convergingController))
       = [OperationCallback 1 5, OnOperationComplete 1 5]
   \<and> (\<exists>s'. run 2 completedRun initialController = Some s'
         \<and> countOf (isOperationCallback 1) s' = 1
         \<and> countOf (isOnOperationComplete 1) s' \<le> 1)"
proof -
  have ns: "status (ops convergingController 1) \<noteq> Stable"
    by (simp add: convergingController_def convergingOperation_def)
  obtain s' where s': "run 2 completedRun initialController = Some s'"
    and c: "countOf (isOperationCallback 1) s' = 1"
    using completedRun_result by (cases "run 2 completedRun initialController") auto
  show ?thesis
    using finalizeOperation_once [of convergingController 1 hostOffset] ns s' c
    by (auto simp: convergingController_def convergingOperation_def hostOffset_def)
qed


subsection \<open>Cancellation callbacks\<close>

lemma cancellations_advances: "advances r s s' \<Longrightarrow> cancellations s' = cancellations s"
  by (simp add: advances_def)

lemma cancellations_start:
  assumes "start n e index bhv cb s = Some s'"
  shows "cancellations s' = cancellations s"
proof -
  from start_props [OF assms] obtain s2 s4 where
    a: "advances (activeAddr s) s s2" and e4: "effects s4 = effects s2"
    and b: "advances (operationIdRef s2 + 1) s4 s'"
    by blast
  have "cancellations s4 = cancellations s2" by (simp add: cancellations_def e4)
  then show ?thesis
    using cancellations_advances [OF a] cancellations_advances [OF b] by simp
qed

lemma start_tears_down:
  assumes st: "start n e index bhv cb s = Some s'"
    and old: "operationRef s = Some old" and alloc: "old \<le> operationIdRef s"
  shows "operationRef s' \<noteq> Some old
       \<and> stabilityTimeoutId (ops s' old) = None \<and> pinTimeoutId (ops s' old) = None
       \<and> scheduleFrameId (ops s' old) = None \<and> anchorFrameId (ops s' old) = None
       \<and> \<not> isPinned (ops s' old)"
proof -
  from start_props [OF st] obtain s2 s4 where
    a: "advances (activeAddr s) s s2"
    and h: "\<forall>old. operationRef s = Some old \<longrightarrow>
                 stabilityTimeoutId (ops s2 old) = None \<and> pinTimeoutId (ops s2 old) = None
               \<and> scheduleFrameId (ops s2 old) = None \<and> anchorFrameId (ops s2 old) = None
               \<and> \<not> isPinned (ops s2 old)"
    and o4: "\<forall>k. k \<noteq> operationIdRef s2 + 1 \<longrightarrow> ops s4 k = ops s2 k"
    and r4: "operationRef s4 = Some (operationIdRef s2 + 1)"
    and b: "advances (operationIdRef s2 + 1) s4 s'"
    by blast
  have "operationIdRef s2 = operationIdRef s" using a by (simp add: advances_def)
  then have ne: "old \<noteq> operationIdRef s2 + 1" using alloc by simp
  then have "ops s' old = ops s2 old" using b o4 by (simp add: advances_def)
  moreover have "operationRef s' \<noteq> Some old" using b r4 ne by (auto simp: advances_def)
  ultimately show ?thesis using h old by simp
qed

text \<open>
  C8. Whatever event the host delivers, the cancellation callback is invoked only by
  \<open>cancel()\<close>, with reason cancelled, and by a scroll event that reaches the
  registered listener while the active operation is not flagged as scrolling
  programmatically, with reason user; each at most once, for the active operation, if
  the callback was supplied. Every other event, \<open>start\<close> included, invokes no
  cancellation callback. A \<open>start\<close> that supersedes an allocated operation leaves
  that operation torn down: it is no longer the active one, its four handles are
  null and it is not pinned.
\<close>

theorem cancellation_only_when_cancelled:
  assumes "step n e ev s = Some s'"
  shows "cancellations s' =
           cancellations s
           @ (case ev of
                Cancel \<Rightarrow>
                  (case operationRef s of
                     None \<Rightarrow> []
                   | Some a \<Rightarrow>
                       if onOperationCancel e
                       then [OnOperationCancel (targetIndex (ops s a)) Cancelled] else [])
              | ScrollEvent \<Rightarrow>
                  (case operationRef s of
                     None \<Rightarrow> []
                   | Some a \<Rightarrow>
                       if domListener s \<and> \<not> isProgrammaticScroll (ops s a) \<and> onOperationCancel e
                       then [OnOperationCancel (targetIndex (ops s a)) User] else [])
              | _ \<Rightarrow> [])
       \<and> (\<forall>old.
             isStart ev \<and> operationRef s = Some old \<and> old \<le> operationIdRef s \<longrightarrow>
               operationRef s' \<noteq> Some old
             \<and> stabilityTimeoutId (ops s' old) = None \<and> pinTimeoutId (ops s' old) = None
             \<and> scheduleFrameId (ops s' old) = None \<and> anchorFrameId (ops s' old) = None
             \<and> \<not> isPinned (ops s' old))"
proof (cases "(\<exists>i b cb. ev = Start i b cb) \<or> ev = Cancel \<or> ev = ScrollEvent")
  case False
  then have "advancesO (activeAddr s) s (step n e ev s)" by (intro adv_step) auto
  then have "cancellations s' = cancellations s"
    using assms by (simp add: cancellations_advances)
  then show ?thesis using False by (cases ev) (simp_all add: isStart_def)
next
  case True
  then consider (start) i b cb where "ev = Start i b cb" | (cancel) "ev = Cancel"
    | (scroll) "ev = ScrollEvent" by blast
  then show ?thesis
  proof cases
    case start
    then have st: "start n e i b cb s = Some s'" using assms by (simp add: step_def)
    show ?thesis
      using start cancellations_start [OF st] start_tears_down [OF st] by (simp add: isStart_def)
  next
    case cancel
    then have s': "s' = clearOperation e (Some Cancelled) s"
      using assms by (simp add: step_def cancel_def)
    show ?thesis
    proof (cases "operationRef s")
      case None
      then show ?thesis using cancel s' by (simp add: clearOperation_def isStart_def)
    next
      case (Some a)
      then show ?thesis
        using cancel s' by (simp add: clearOperation_active filters isStart_def)
    qed
  next
    case scroll
    show ?thesis
    proof (cases "operationRef s")
      case None
      then show ?thesis
        using scroll assms by (auto simp: step_def scrollListener_def isStart_def)
    next
      case (Some a)
      then show ?thesis
        using scroll assms
        by (auto simp: step_def scrollListener_def clearOperation_active filters isStart_def)
    qed
  qed
qed

lemma converging_superseded_returns:
  "step 2 hostOffset (Start 9 Smooth False) convergingController \<noteq> None"
  by code_simp

theorem cancellation_only_when_cancelled_witness:
  "(\<exists>s'. step 2 hostOffset (Start 9 Smooth False) convergingController = Some s'
        \<and> operationRef convergingController = Some 1
        \<and> cancellations s' = [] \<and> operationRef s' \<noteq> Some 1
        \<and> stabilityTimeoutId (ops s' 1) = None)
   \<and> step 2 hostOffset Cancel pinnedController = Some (cancel hostOffset pinnedController)
   \<and> cancellations (cancel hostOffset pinnedController) = [OnOperationCancel 5 Cancelled]
   \<and> step 2 hostOffset ScrollEvent pinnedController
       = Some (scrollListener hostOffset pinnedController)
   \<and> cancellations (scrollListener hostOffset pinnedController) = [OnOperationCancel 5 User]"
proof -
  obtain s' where s': "step 2 hostOffset (Start 9 Smooth False) convergingController = Some s'"
    using converging_superseded_returns by blast
  have c: "step 2 hostOffset Cancel pinnedController = Some (cancel hostOffset pinnedController)"
    by (simp add: step_def)
  have u: "step 2 hostOffset ScrollEvent pinnedController
             = Some (scrollListener hostOffset pinnedController)"
    by (simp add: step_def pinnedController_def)
  have p: "operationRef pinnedController = Some 1" "domListener pinnedController"
    "\<not> isProgrammaticScroll (ops pinnedController 1)" "targetIndex (ops pinnedController 1) = 5"
    "cancellations pinnedController = []" "onOperationCancel hostOffset"
    by (simp_all add: pinnedController_def pinnedOperation_def hostOffset_def cancellations_def)
  have q: "operationRef convergingController = Some 1" "operationIdRef convergingController = 1"
    "cancellations convergingController = []"
    by (simp_all add: convergingController_def cancellations_def)
  show ?thesis
    using cancellation_only_when_cancelled [OF s'] cancellation_only_when_cancelled [OF c]
      cancellation_only_when_cancelled [OF u] s' c u p q
    by (simp add: isStart_def)
qed

subsection \<open>The correction budget\<close>

text \<open>
  C2 claims that \<open>correctionsRemaining\<close> stays non-negative and that the operation
  finalizes once the budget is exhausted while the target is misaligned. The code does
  neither on the run \<open>stuckRun\<close>: the stability check spends the only correction
  (budget 0), the correction frame scheduled earlier then decrements without looking
  (budget -1), and each further stability check scrolls and re-arms itself; after three
  of them the operation is still active and not stable, and no completion callback
  has been invoked. On \<open>exhaustedRun\<close>, where the correction frame fires first, the
  budget ends at 0 and the stability checks go on in the same way.
\<close>

theorem budget_goes_negative_and_never_finalizes:
  "map_option (\<lambda>s. correctionsRemaining (ops s 1)) (run 2 (take 3 stuckRun) initialController)
     = Some 0
   \<and> map_option (\<lambda>s. correctionsRemaining (ops s 1)) (run 2 (take 4 stuckRun) initialController)
     = Some (- 1)
   \<and> map_option (\<lambda>s. (operationRef s, correctionsRemaining (ops s 1), status (ops s 1),
                       countOf (isOperationCallback 1) s, countOf (isOnOperationComplete 1) s,
                       stabilityTimer s))
        (run 2 stuckRun initialController)
     = Some (Some 1, - 1, Initial, 0, 0, Some (RunCheck 1))
   \<and> map_option (\<lambda>s. (operationRef s, correctionsRemaining (ops s 1), status (ops s 1),
                       countOf (isOperationCallback 1) s, countOf (isOnOperationComplete 1) s,
                       stabilityTimer s))
        (run 2 exhaustedRun initialController)
     = Some (Some 1, 0, Initial, 0, 0, Some (RunCheck 1))"
  by code_simp

text \<open>
  The reason, for any state: with the scroll container present, a stability check that
  finds the measured target misaligned always applies an adjustment and re-arms the
  timer, whatever the budget; the branch that finalizes an exhausted budget is never
  taken. So polling goes on for as long as the target stays misaligned.
\<close>

lemma misaligned_exceeds_tolerance:
  assumes "scrollViewRect e \<noteq> None"
    and "elementExists (evaluateTargetAlignment e i)"
    and "\<not> aligned (evaluateTargetAlignment e i)"
  shows "VIEWPORT_TOLERANCE < \<bar>startDelta (evaluateTargetAlignment e i)\<bar>
       \<or> VIEWPORT_TOLERANCE < endOverflow (evaluateTargetAlignment e i)"
  using assms
  by (cases "elementRect e i")
     (auto simp: evaluateTargetAlignment_def Let_def split: option.splits)

lemma scheduleStabilityCheck_live:
  assumes "hasTimeout e" and "timeoutHookLive e"
  shows "scheduleStabilityCheck (Suc n) e r s =
           Some (modify r (\<lambda>operation. operation\<lparr>stabilityTimeoutId :=
                              Some (nextHandle (clearStabilityTimeout r s))\<rparr>)
                   ((clearStabilityTimeout r s)
                      \<lparr>stabilityTimer := Some (RunCheck (op_id (ops (clearStabilityTimeout r s) r))),
                       nextHandle := nextHandle (clearStabilityTimeout r s) + 1\<rparr>))"
  using assms by (simp add: scheduleStabilityCheck_def scheduleStabilityCheckRef_def Let_def)

lemma stability_check_rearms_when_misaligned:
  assumes act: "operationRef s = Some a" and k: "op_id (ops s a) = k"
    and m: "hasMeasuredTarget (ops s a)" and ns: "status (ops s a) \<noteq> Stable"
    and view: "scrollViewRect e \<noteq> None"
    and ex: "elementExists (evaluateTargetAlignment e (targetIndex (ops s a)))"
    and mis: "\<not> aligned (evaluateTargetAlignment e (targetIndex (ops s a)))"
    and live: "hasTimeout e" "timeoutHookLive e"
  shows "\<exists>s'. runCheck sc (scheduleStabilityCheck (Suc n)) e k s = Some s'
       \<and> operationRef s' = Some a \<and> op_id (ops s' a) = k
       \<and> hasMeasuredTarget (ops s' a) \<and> targetIndex (ops s' a) = targetIndex (ops s a)
       \<and> status (ops s' a) \<noteq> Stable
       \<and> stabilityTimer s' = Some (RunCheck k)
       \<and> countOf (isOperationCallback a) s' = countOf (isOperationCallback a) s
       \<and> countOf (isOnOperationComplete a) s' = countOf (isOnOperationComplete a) s
       \<and> correctionsRemaining (ops s' a) =
           (if 0 < correctionsRemaining (ops s a) then correctionsRemaining (ops s a) - 1
            else correctionsRemaining (ops s a))"
proof -
  let ?al = "evaluateTargetAlignment e (targetIndex (ops s a))"
  have big: "VIEWPORT_TOLERANCE < \<bar>startDelta ?al\<bar> \<or> VIEWPORT_TOLERANCE < endOverflow ?al"
    by (rule misaligned_exceeds_tolerance [OF view ex mis])
  show ?thesis
    using act k m ns ex mis big view live
    by (simp add: runCheck_def Let_def scheduleStabilityCheck_live [OF live] fields countOf_def
        isOperationCallback_def isOnOperationComplete_def)
qed

lemma stability_polling_never_finalizes:
  assumes view: "scrollViewRect e \<noteq> None" and live: "hasTimeout e" "timeoutHookLive e"
    and act: "operationRef s = Some a" and k: "op_id (ops s a) = k"
    and m: "hasMeasuredTarget (ops s a)" and ns: "status (ops s a) \<noteq> Stable"
    and ex: "elementExists (evaluateTargetAlignment e (targetIndex (ops s a)))"
    and mis: "\<not> aligned (evaluateTargetAlignment e (targetIndex (ops s a)))"
    and slot: "stabilityTimer s = Some (RunCheck k)"
  shows "\<exists>s'. run (Suc n) (replicate j (e, Fire StabilityTimer)) s = Some s'
       \<and> operationRef s' = Some a \<and> status (ops s' a) \<noteq> Stable
       \<and> countOf (isOperationCallback a) s' = countOf (isOperationCallback a) s
       \<and> countOf (isOnOperationComplete a) s' = countOf (isOnOperationComplete a) s"
  using act k m ns ex mis slot
proof (induction j arbitrary: s)
  case 0
  then show ?case by simp
next
  case (Suc j)
  let ?s0 = "s\<lparr>stabilityTimer := None\<rparr>"
  have fire: "step (Suc n) e (Fire StabilityTimer) s =
                runCheck (scheduleCorrection (Suc n)) (scheduleStabilityCheck (Suc n)) e k ?s0"
    using Suc.prems by (simp add: step_def slotContent_def emptySlot_def runScheduled_def)
  have "\<exists>s'. runCheck (scheduleCorrection (Suc n)) (scheduleStabilityCheck (Suc n)) e k ?s0 = Some s'
       \<and> operationRef s' = Some a \<and> op_id (ops s' a) = k
       \<and> hasMeasuredTarget (ops s' a) \<and> targetIndex (ops s' a) = targetIndex (ops ?s0 a)
       \<and> status (ops s' a) \<noteq> Stable
       \<and> stabilityTimer s' = Some (RunCheck k)
       \<and> countOf (isOperationCallback a) s' = countOf (isOperationCallback a) ?s0
       \<and> countOf (isOnOperationComplete a) s' = countOf (isOnOperationComplete a) ?s0
       \<and> correctionsRemaining (ops s' a) =
           (if 0 < correctionsRemaining (ops ?s0 a) then correctionsRemaining (ops ?s0 a) - 1
            else correctionsRemaining (ops ?s0 a))"
    using Suc.prems by (intro stability_check_rearms_when_misaligned view live) simp_all
  then obtain s1 where s1: "step (Suc n) e (Fire StabilityTimer) s = Some s1"
    and p: "operationRef s1 = Some a" "op_id (ops s1 a) = k" "hasMeasuredTarget (ops s1 a)"
      "targetIndex (ops s1 a) = targetIndex (ops s a)" "status (ops s1 a) \<noteq> Stable"
      "stabilityTimer s1 = Some (RunCheck k)"
    and c: "countOf (isOperationCallback a) s1 = countOf (isOperationCallback a) s"
      "countOf (isOnOperationComplete a) s1 = countOf (isOnOperationComplete a) s"
    unfolding fire by (auto simp: countOf_def)
  have "\<exists>s'. run (Suc n) (replicate j (e, Fire StabilityTimer)) s1 = Some s'
       \<and> operationRef s' = Some a \<and> status (ops s' a) \<noteq> Stable
       \<and> countOf (isOperationCallback a) s' = countOf (isOperationCallback a) s1
       \<and> countOf (isOnOperationComplete a) s' = countOf (isOnOperationComplete a) s1"
    using p Suc.prems(5,6) by (intro Suc.IH) simp_all
  then show ?case using s1 c by auto
qed

text \<open>
  The part of C2 that the code does satisfy: no event raises the budget of an
  allocated operation.
\<close>

lemma budget_never_increases:
  assumes "step n e ev s = Some s'" and "k \<le> operationIdRef s"
  shows "correctionsRemaining (ops s' k) \<le> correctionsRemaining (ops s k)"
proof (cases "(\<exists>i b cb. ev = Start i b cb) \<or> ev = Cancel \<or> ev = ScrollEvent")
  case False
  then have "advancesO (activeAddr s) s (step n e ev s)" by (intro adv_step) auto
  then have "advances (activeAddr s) s s'" using assms(1) by simp
  then show ?thesis
    by (cases "k = activeAddr s") (simp_all add: advances_def)
next
  case True
  then consider (start) i b cb where "ev = Start i b cb" | (cancel) "ev = Cancel"
    | (scroll) "ev = ScrollEvent" by blast
  then show ?thesis
  proof cases
    case start
    then have st: "start n e i b cb s = Some s'" using assms(1) by (simp add: step_def)
    from start_props [OF st] obtain s2 s4 where
      a: "advances (activeAddr s) s s2"
      and o4: "\<forall>k. k \<noteq> operationIdRef s2 + 1 \<longrightarrow> ops s4 k = ops s2 k"
      and b: "advances (operationIdRef s2 + 1) s4 s'"
      by blast
    have "operationIdRef s2 = operationIdRef s" using a by (simp add: advances_def)
    then have ne: "k \<noteq> operationIdRef s2 + 1" using assms(2) by simp
    then have "ops s' k = ops s2 k" using b o4 by (simp add: advances_def)
    moreover have "correctionsRemaining (ops s2 k) \<le> correctionsRemaining (ops s k)"
      using a by (cases "k = activeAddr s") (simp_all add: advances_def)
    ultimately show ?thesis by simp
  next
    case cancel
    show ?thesis
    proof (cases "operationRef s")
      case None
      then show ?thesis
        using cancel assms(1) by (simp add: step_def cancel_def clearOperation_def)
    next
      case (Some a)
      then show ?thesis
        using cancel assms(1) by (auto simp: step_def cancel_def clearOperation_active)
    qed
  next
    case scroll
    show ?thesis
    proof (cases "operationRef s")
      case None
      then show ?thesis
        using scroll assms(1) by (auto simp: step_def scrollListener_def)
    next
      case (Some a)
      then show ?thesis
        using scroll assms(1)
        by (auto simp: step_def scrollListener_def clearOperation_active split: if_splits)
    qed
  qed
qed

subsection \<open>Cleanup on pin release\<close>

text \<open>
  C4 claims that every path that discards the record cancels all four handles first.
  \<open>clearOperation\<close> does (lemma \<open>clearOperation_active\<close>), \<open>releasePin\<close> does not: it
  clears the pin timer only. On \<open>pinExpiryRun\<close> the operation is pinned and active
  before the last event; after the pin-expiry timer the record is discarded with its
  stability handle set and the stability timer still scheduled. On
  \<open>earlyPinExpiryRun\<close> it is discarded with its anchor handle set and the coalescing
  callback still scheduled.
\<close>

theorem pin_release_leaves_callbacks_scheduled:
  "map_option (\<lambda>s. (operationRef s, isPinned (ops s 1), pinReleases s))
        (run 2 (take 5 pinExpiryRun) initialController)
     = Some (Some 1, True, [])
   \<and> map_option (\<lambda>s. (operationRef s, pinReleases s, stabilityTimeoutId (ops s 1),
                       stabilityTimer s))
        (run 2 pinExpiryRun initialController)
     = Some (None, [OnPinReleased 5], Some 8, Some (RunCheck 1))
   \<and> map_option (\<lambda>s. (operationRef s, pinReleases s, anchorFrameId (ops s 1), anchorFrame s))
        (run 2 earlyPinExpiryRun initialController)
     = Some (None, [OnPinReleased 5], Some 4, Some (CommitAnchor 1))"
  by code_simp

subsection \<open>Coalescing of upstream measurements\<close>








subsection \<open>Every event returns in a live host\<close>

text \<open>
  In a host with frames and timers no call is synchronous, so every event returns with
  one unit of fuel: the statements above about runs are about all the runs of such a
  host.
\<close>

lemma scheduleCorrection_live:
  assumes "liveHost e"
  shows "scheduleCorrection (Suc n) e r s \<noteq> None"
  using assms
  by (simp add: liveHost_def scheduleCorrection_def scheduleCorrectionRef_def Let_def)

lemma scheduleStabilityCheck_returns:
  assumes "liveHost e"
  shows "scheduleStabilityCheck (Suc n) e r s \<noteq> None"
  using assms by (simp add: liveHost_def scheduleStabilityCheck_live)

lemma ret_if: "(c \<Longrightarrow> A \<noteq> None) \<Longrightarrow> (\<not> c \<Longrightarrow> B \<noteq> None) \<Longrightarrow> (if c then A else B) \<noteq> None"
  by simp

lemma ret_case:
  "m \<noteq> None \<Longrightarrow> (\<And>y. g y \<noteq> None) \<Longrightarrow> (case m of None \<Rightarrow> None | Some y \<Rightarrow> g y) \<noteq> None"
  by (cases m) simp_all

lemma ret_bind: "m \<noteq> None \<Longrightarrow> (\<And>y. g y \<noteq> None) \<Longrightarrow> Option.bind m g \<noteq> None"
  by (cases m) simp_all

lemma ret_Some: "Some x \<noteq> None"
  by simp

lemmas ret_intros = ret_if ret_case ret_bind ret_Some

lemma runCheck_returns:
  assumes "liveHost e"
  shows "runCheck (scheduleCorrection (Suc n)) (scheduleStabilityCheck (Suc n)) e k s \<noteq> None"
  unfolding runCheck_def Let_def
  by (cases "operationRef s"; simp only: option.case)
     (intro ret_intros scheduleCorrection_live [OF assms]
        scheduleStabilityCheck_returns [OF assms])+

lemma executeCorrection_returns:
  assumes "liveHost e"
  shows "executeCorrection (scheduleCorrection (Suc n)) (scheduleStabilityCheck (Suc n)) e k s
           \<noteq> None"
  unfolding executeCorrection_def Let_def
  by (cases "operationRef s"; simp only: option.case)
     (intro ret_intros scheduleCorrection_live [OF assms]
        scheduleStabilityCheck_returns [OF assms])+

lemma scheduleAnchorAdjustment_returns:
  assumes "liveHost e"
  shows "scheduleAnchorAdjustment (Suc n) e r d s \<noteq> None"
  unfolding scheduleAnchorAdjustment_def Let_def
  by (intro ret_intros scheduleStabilityCheck_returns [OF assms])

lemma commitAnchor_returns:
  assumes "liveHost e"
  shows "commitAnchor (Suc n) e k s \<noteq> None"
  unfolding commitAnchor_def Let_def
  by (cases "operationRef s"; simp only: option.case)
     (intro ret_intros scheduleStabilityCheck_returns [OF assms]
        scheduleAnchorAdjustment_returns [OF assms])+

lemma handleItemMeasured_returns:
  assumes "liveHost e"
  shows "handleItemMeasured (Suc n) e i sz d s \<noteq> None"
  unfolding handleItemMeasured_def Let_def
  by (cases "operationRef s"; simp only: option.case)
     (intro ret_intros scheduleStabilityCheck_returns [OF assms]
        scheduleAnchorAdjustment_returns [OF assms] scheduleCorrection_live [OF assms])+

lemma handleRendered_returns:
  assumes "liveHost e"
  shows "handleRendered (Suc n) e i s \<noteq> None"
  unfolding handleRendered_def Let_def
  by (cases "operationRef s"; simp only: option.case)
     (intro ret_intros scheduleStabilityCheck_returns [OF assms]
        scheduleCorrection_live [OF assms])+

lemma start_returns:
  assumes "liveHost e"
  shows "start (Suc n) e i b cb s \<noteq> None"
  unfolding start_def Let_def
  by (intro ret_intros scheduleStabilityCheck_returns [OF assms]
        scheduleCorrection_live [OF assms])

lemma step_returns:
  assumes "liveHost e"
  shows "step (Suc n) e ev s \<noteq> None"
proof (cases ev)
  case (Fire sl)
  show ?thesis
  proof (cases "slotContent sl s")
    case None
    then show ?thesis using Fire by (simp add: step_def)
  next
    case (Some c)
    then show ?thesis
      using Fire
      by (cases c)
         (simp_all add: step_def runScheduled_def commitAnchor_returns [OF assms]
            runCheck_returns [OF assms] executeCorrection_returns [OF assms])
  qed
qed (simp_all add: step_def start_returns [OF assms] handleItemMeasured_returns [OF assms]
       handleRendered_returns [OF assms])

lemma run_returns:
  "\<forall>(e, ev) \<in> set evs. liveHost e \<Longrightarrow> run (Suc n) evs s \<noteq> None"
proof (induction evs arbitrary: s)
  case Nil
  then show ?case by simp
next
  case (Cons x evs)
  obtain e ev where x: "x = (e, ev)" by (cases x)
  then have "liveHost e" using Cons.prems by simp
  then obtain s1 where "step (Suc n) e ev s = Some s1"
    using step_returns [of e n ev s] by blast
  then show ?case using Cons x by simp
qed

end
